theory Spec2Isabelle
  imports Complex_Main "HOL-Library.Word"
begin

section \<open>Python values\<close>

text \<open>
  A Python \<open>str\<close> is a sequence of Unicode code points and \<open>len\<close> counts code points,
  so a string is a list of code points. \<open>bytes\<close> is a list of octets.
\<close>

type_synonym pystr = "nat list"
type_synonym bytes = "8 word list"

definition str :: "string \<Rightarrow> pystr" where
  "str s = map of_char s"

text \<open>
  The code points that \<open>str.strip()\<close> removes (those for which \<open>str.isspace\<close> holds):
  U+0009..U+000D, U+001C..U+0020, U+0085, U+00A0, U+1680, U+2000..U+200A, U+2028, U+2029,
  U+202F, U+205F, U+3000.
\<close>

definition py_isspace :: "nat \<Rightarrow> bool" where
  "py_isspace c \<longleftrightarrow>
     (9 \<le> c \<and> c \<le> 13) \<or> (28 \<le> c \<and> c \<le> 32) \<or> c = 133 \<or> c = 160 \<or> c = 5760 \<or>
     (8192 \<le> c \<and> c \<le> 8202) \<or> c = 8232 \<or> c = 8233 \<or> c = 8239 \<or> c = 8287 \<or> c = 12288"

definition strip :: "pystr \<Rightarrow> pystr" where
  "strip s = rev (dropWhile py_isspace (rev (dropWhile py_isspace s)))"

text \<open>
  The values \<open>json.loads\<close> returns and \<open>json.dumps\<close> accepts. A dict is the list of its
  items in insertion order (its keys are distinct). A float is carried as a rational:
  the program never computes with one, and NaN and the infinities, which \<open>json.loads\<close>
  also accepts, are left out.
\<close>

datatype json =
    JNull
  | JBool bool
  | JInt int
  | JFloat rat
  | JStr pystr
  | JArr "json list"
  | JObj "(pystr \<times> json) list"

type_synonym message = "(pystr \<times> json) list"

text \<open>\<open>d.get(key, default)\<close> on a dict.\<close>

definition dict_get :: "(pystr \<times> json) list \<Rightarrow> pystr \<Rightarrow> json \<Rightarrow> json" where
  "dict_get d k dflt = (case map_of d k of None \<Rightarrow> dflt | Some v \<Rightarrow> v)"

text \<open>Python truthiness, as \<open>not text\<close> evaluates it.\<close>

fun truthy :: "json \<Rightarrow> bool" where
  "truthy JNull = False"
| "truthy (JBool b) = b"
| "truthy (JInt i) = (i \<noteq> 0)"
| "truthy (JFloat r) = (r \<noteq> 0)"
| "truthy (JStr s) = (s \<noteq> [])"
| "truthy (JArr xs) = (xs \<noteq> [])"
| "truthy (JObj kvs) = (kvs \<noteq> [])"

fun py_type_name :: "json \<Rightarrow> string" where
  "py_type_name JNull = ''NoneType''"
| "py_type_name (JBool b) = ''bool''"
| "py_type_name (JInt i) = ''int''"
| "py_type_name (JFloat r) = ''float''"
| "py_type_name (JStr s) = ''str''"
| "py_type_name (JArr xs) = ''list''"
| "py_type_name (JObj kvs) = ''dict''"

text \<open>
  Exceptions. The handlers of the program tell \<open>json.JSONDecodeError\<close> and
  \<open>websockets.exceptions.ConnectionClosed\<close> from every other \<open>Exception\<close>; each carries
  the text \<open>str(e)\<close> gives.
\<close>

datatype pyexc =
    JSONDecodeError pystr
  | ConnectionClosed pystr
  | AttributeError pystr
  | OSError pystr
  | RecursionError pystr
  | OtherException pystr

fun exc_str :: "pyexc \<Rightarrow> pystr" where
  "exc_str (JSONDecodeError s) = s"
| "exc_str (ConnectionClosed s) = s"
| "exc_str (AttributeError s) = s"
| "exc_str (OSError s) = s"
| "exc_str (RecursionError s) = s"
| "exc_str (OtherException s) = s"

text \<open>The \<open>AttributeError\<close> of \<open>v.attr\<close> on a value whose type has no such attribute.\<close>

definition no_attribute :: "json \<Rightarrow> string \<Rightarrow> pyexc" where
  "no_attribute v attr =
     AttributeError ([39] @ str (py_type_name v) @ [39] @ str '' object has no attribute '' @
                     [39] @ str attr @ [39])"

section \<open>The environment and the state\<close>

text \<open>
  What the program calls and does not define: the websocket, the event loop's clock,
  \<open>uuid.uuid4\<close>, \<open>json.loads\<close>, \<open>str()\<close> of a non-string value inside an f-string,
  \<open>base64.b64encode\<close>, \<open>tempfile.NamedTemporaryFile\<close>, the pyttsx3 engine, the file
  system calls and \<open>platform.system\<close>. Each is a parameter; a call that can raise
  returns the exception.
\<close>

record env =
  send_result :: "nat \<Rightarrow> pyexc option"
    \<comment> \<open>the n-th call of \<open>websocket.send\<close>: \<open>None\<close> delivers, \<open>Some e\<close> raises \<open>e\<close>\<close>
  loop_clock :: "nat \<Rightarrow> rat"
    \<comment> \<open>the n-th reading of \<open>asyncio.get_event_loop().time()\<close>\<close>
  uuid4 :: "nat \<Rightarrow> pystr"
    \<comment> \<open>the n-th \<open>str(uuid.uuid4())\<close>\<close>
  json_loads :: "pystr \<Rightarrow> pyexc + json"
  py_format :: "json \<Rightarrow> pystr"
    \<comment> \<open>\<open>str(v)\<close> of a value that is not a \<open>str\<close>\<close>
  b64encode :: "bytes \<Rightarrow> pystr"
  mktemp :: "nat \<Rightarrow> pyexc + pystr list"
    \<comment> \<open>the n-th \<open>NamedTemporaryFile(suffix='.wav', delete=False)\<close>: the error it raises, or
        the candidate paths \<open>tempfile\<close> tries in turn, without the suffix\<close>
  engine :: "nat \<Rightarrow> pystr \<Rightarrow> pyexc option \<times> bytes option"
    \<comment> \<open>the n-th run of the inner \<open>synthesize()\<close> on a text: the exception raised inside it, if
        any (by \<open>pyttsx3.init\<close>, \<open>setProperty\<close>, \<open>getProperty\<close>, \<open>save_to_file\<close> or \<open>runAndWait\<close>),
        and the content of the target file afterwards (\<open>None\<close>: the file is not there)\<close>
  read_error :: "pystr \<Rightarrow> nat \<Rightarrow> pyexc option"
    \<comment> \<open>on the named file: index 0 is \<open>open\<close>, index \<open>Suc i\<close> is the i-th \<open>f.read\<close>\<close>
  unlink_error :: "pystr \<Rightarrow> pyexc option"
    \<comment> \<open>\<open>os.unlink\<close> of the named file: \<open>None\<close> removes it, \<open>Some e\<close> raises \<open>e\<close>\<close>
  voices :: "pystr list"
    \<comment> \<open>the names of \<open>engine.getProperty('voices')\<close>\<close>
  platform_system :: pystr
    \<comment> \<open>\<open>platform.system()\<close>\<close>

record world =
  sent :: "message list"
    \<comment> \<open>the messages delivered on the websocket, oldest first (before \<open>json.dumps\<close>)\<close>
  attempts :: nat
    \<comment> \<open>the calls of \<open>websocket.send\<close> so far\<close>
  ticks :: nat
    \<comment> \<open>the readings of the clock so far\<close>
  uuids :: nat
    \<comment> \<open>the calls of \<open>uuid.uuid4\<close> so far\<close>
  runs :: nat
    \<comment> \<open>the synthesis runs started so far\<close>
  fs :: "pystr \<Rightarrow> bytes option"
    \<comment> \<open>the files that exist, by name\<close>
  synthesize_runs :: "(pystr \<times> pystr) list"
    \<comment> \<open>the runs of the inner \<open>synthesize()\<close> in the executor so far (line 89), each with
        its text and its target file\<close>
  active_connections :: "pystr \<Rightarrow> rat option"
    \<comment> \<open>\<open>TTSWebSocketServer.active_connections\<close>: connection id to \<open>connected_at\<close>\<close>
  engine_stopped :: bool
    \<comment> \<open>\<open>engine.stop()\<close> was called\<close>
  serving :: bool
    \<comment> \<open>the listening socket of \<open>websockets.serve\<close> is open\<close>

text \<open>config/settings.py\<close>

definition RATE :: int where "RATE = 150"
definition VOLUME :: rat where "VOLUME = 9 / 10"
definition VOICE_INDEX :: nat where "VOICE_INDEX = 0"
definition CHUNK_SIZE :: nat where "CHUNK_SIZE = 4096"

definition ws_send :: "env \<Rightarrow> message \<Rightarrow> world \<Rightarrow> (pyexc + unit) \<times> world" where
  "ws_send env m w =
     (case send_result env (attempts w) of
        None \<Rightarrow> (Inr (), w\<lparr>sent := sent w @ [m], attempts := Suc (attempts w)\<rparr>)
      | Some e \<Rightarrow> (Inl e, w\<lparr>attempts := Suc (attempts w)\<rparr>))"

definition loop_time :: "env \<Rightarrow> world \<Rightarrow> rat \<times> world" where
  "loop_time env w = (loop_clock env (ticks w), w\<lparr>ticks := Suc (ticks w)\<rparr>)"

section \<open>core/tts.py: SpeechSynthesizer\<close>

subsection \<open>text_to_speech_stream\<close>

text \<open>
  The read loop of lines 93-98: \<open>open\<close>, then \<open>f.read(chunk_size)\<close> until it returns
  \<open>b""\<close>. The result is the chunks yielded and the exception that ended the loop, if any.
  \<open>f.read(0)\<close> returns \<open>b""\<close>, so a chunk size of 0 yields nothing.
\<close>

function read_loop :: "(nat \<Rightarrow> pyexc option) \<Rightarrow> nat \<Rightarrow> nat \<Rightarrow> bytes \<Rightarrow> bytes list \<times> pyexc option" where
  "read_loop rerr chunk_size i bs =
     (case rerr (Suc i) of
        Some e \<Rightarrow> ([], Some e)
      | None \<Rightarrow>
          if take chunk_size bs = [] then ([], None)
          else (case read_loop rerr chunk_size (Suc i) (drop chunk_size bs) of
                  (cs, r) \<Rightarrow> (take chunk_size bs # cs, r)))"
  by pat_completeness auto
termination
  by (relation "measure (\<lambda>(rerr, chunk_size, i, bs). length bs)") auto

definition read_file :: "(nat \<Rightarrow> pyexc option) \<Rightarrow> nat \<Rightarrow> bytes \<Rightarrow> bytes list \<times> pyexc option" where
  "read_file rerr chunk_size bs =
     (case rerr 0 of Some e \<Rightarrow> ([], Some e) | None \<Rightarrow> read_loop rerr chunk_size 0 bs)"

text \<open>
  The generator is modelled by the list of values it yields and by its two effects on the
  state: \<open>tts_begin\<close> is the body from line 56 to the last \<open>yield\<close> (the temporary file is
  created, the engine runs, the file is read), \<open>tts_finally\<close> is the \<open>finally\<close> block of
  lines 108-114. The file is the generator's own, so what it reads is what the engine left.

  \<^item> blank text: \<open>yield b""\<close> and return, before the \<open>try\<close> (lines 56-58);
  \<^item> \<open>NamedTemporaryFile\<close> creates the first candidate (with the suffix \<open>.wav\<close>) that does
    not exist; when it raises, or every candidate exists (\<open>FileExistsError\<close>), the \<open>except\<close>
    of line 105 yields \<open>b""\<close>, and \<open>temp_filename\<close> is still \<open>None\<close>;
  \<^item> the engine raises: \<open>synthesize\<close> logs and swallows the exception (lines 84-85), and
    the generator goes on with whatever file is there;
  \<^item> no file after the engine ran: \<open>yield b""\<close> (lines 101-103);
  \<^item> \<open>open\<close> or \<open>read\<close> raises: the \<open>except\<close> of line 105 yields \<open>b""\<close> after the chunks read.
\<close>

definition tts_begin :: "env \<Rightarrow> pystr \<Rightarrow> nat \<Rightarrow> world \<Rightarrow> pystr option \<times> bytes list \<times> world" where
  "tts_begin env text chunk_size w =
     (if text = [] \<or> length (strip text) < 1 then (None, [[]], w)
      else
        let r = runs w; w0 = w\<lparr>runs := Suc r\<rparr> in
        (case mktemp env r of
           Inl e \<Rightarrow> (None, [[]], w0)
         | Inr candidates \<Rightarrow>
             (case find (\<lambda>name. fs w0 name = None) (map (\<lambda>c. c @ str ''.wav'') candidates) of
                None \<Rightarrow> (None, [[]], w0)
              | Some name \<Rightarrow>
                  let w1 = w0\<lparr>fs := (fs w0)(name \<mapsto> [])\<rparr>;
                      after = snd (engine env r text);
                      w1' = w1\<lparr>synthesize_runs := synthesize_runs w1 @ [(text, name)]\<rparr>;
                      w2 = w1'\<lparr>fs := (fs w1')(name := after)\<rparr>
                  in (case after of
                        None \<Rightarrow> (Some name, [[]], w2)
                      | Some audio \<Rightarrow>
                          (case read_file (read_error env name) chunk_size audio of
                             (cs, r) \<Rightarrow>
                               (Some name, (case r of None \<Rightarrow> cs | Some e \<Rightarrow> cs @ [[]]), w2))))))"

definition tts_finally :: "env \<Rightarrow> pystr option \<Rightarrow> world \<Rightarrow> world" where
  "tts_finally env temp_filename w =
     (case temp_filename of
        None \<Rightarrow> w
      | Some name \<Rightarrow>
          if name \<noteq> [] \<and> fs w name \<noteq> None then
            (case unlink_error env name of
               None \<Rightarrow> w\<lparr>fs := (fs w)(name := None)\<rparr>
             | Some e \<Rightarrow> w)
          else w)"

text \<open>The generator run until it is exhausted.\<close>

definition text_to_speech_stream :: "env \<Rightarrow> pystr \<Rightarrow> nat \<Rightarrow> world \<Rightarrow> bytes list \<times> world" where
  "text_to_speech_stream env text chunk_size w =
     (case tts_begin env text chunk_size w of
        (temp_filename, ys, w') \<Rightarrow> (ys, tts_finally env temp_filename w'))"

subsection \<open>synthesize_and_stream\<close>

definition start_message :: "json \<Rightarrow> pystr \<Rightarrow> rat \<Rightarrow> message" where
  "start_message request_id text t =
     [(str ''type'', JStr (str ''synthesis_start'')),
      (str ''request_id'', request_id),
      (str ''text_length'', JInt (int (length text))),
      (str ''timestamp'', JFloat t)]"

definition chunk_message :: "env \<Rightarrow> json \<Rightarrow> int \<Rightarrow> bytes \<Rightarrow> int \<Rightarrow> message" where
  "chunk_message env request_id chunk_index audio_chunk total_size =
     [(str ''type'', JStr (str ''audio_chunk'')),
      (str ''request_id'', request_id),
      (str ''chunk_index'', JInt chunk_index),
      (str ''audio_data'', JStr (b64encode env audio_chunk)),
      (str ''chunk_size'', JInt (int (length audio_chunk))),
      (str ''total_size'', JInt total_size),
      (str ''is_final'', JBool False)]"

definition end_message :: "json \<Rightarrow> int \<Rightarrow> int \<Rightarrow> rat \<Rightarrow> message" where
  "end_message request_id chunk_index total_size t =
     [(str ''type'', JStr (str ''synthesis_complete'')),
      (str ''request_id'', request_id),
      (str ''total_chunks'', JInt chunk_index),
      (str ''total_size'', JInt total_size),
      (str ''timestamp'', JFloat t)]"

definition error_message :: "json \<Rightarrow> pystr \<Rightarrow> rat \<Rightarrow> message" where
  "error_message request_id text t =
     [(str ''type'', JStr (str ''error'')),
      (str ''request_id'', request_id),
      (str ''message'', JStr text),
      (str ''timestamp'', JFloat t)]"

text \<open>
  The \<open>async for\<close> of lines 138-159 over the values the generator yields: an empty chunk
  is skipped, any other is counted, added to the running size and sent. A send that
  raises ends the loop with the exception.
\<close>

fun stream_chunks ::
  "env \<Rightarrow> json \<Rightarrow> bytes list \<Rightarrow> int \<Rightarrow> int \<Rightarrow> world \<Rightarrow> (pyexc + int \<times> int) \<times> world" where
  "stream_chunks env request_id [] chunk_index total_size w = (Inr (chunk_index, total_size), w)"
| "stream_chunks env request_id (audio_chunk # rest) chunk_index total_size w =
     (if audio_chunk = [] then stream_chunks env request_id rest chunk_index total_size w
      else
        let chunk_index' = chunk_index + 1;
            total_size' = total_size + int (length audio_chunk)
        in case ws_send env (chunk_message env request_id chunk_index' audio_chunk total_size') w of
             (Inl e, w') \<Rightarrow> (Inl e, w')
           | (Inr u, w') \<Rightarrow> stream_chunks env request_id rest chunk_index' total_size' w')"

text \<open>
  The \<open>try\<close> body of lines 125-171. When a send raises inside the loop the generator is
  left suspended at its \<open>yield\<close>: \<open>async for\<close> does not close it, so its \<open>finally\<close> block has
  not run when the handler of line 173 takes over (the event loop closes the generator
  later, which runs \<open>tts_finally\<close>).
\<close>

definition stream_body :: "env \<Rightarrow> pystr \<Rightarrow> json \<Rightarrow> world \<Rightarrow> (pyexc + unit) \<times> world" where
  "stream_body env text request_id w =
     (case loop_time env w of
        (t, w1) \<Rightarrow>
          (case ws_send env (start_message request_id text t) w1 of
             (Inl e, w2) \<Rightarrow> (Inl e, w2)
           | (Inr u, w2) \<Rightarrow>
               (case tts_begin env text CHUNK_SIZE w2 of
                  (temp_filename, ys, w3) \<Rightarrow>
                    (case stream_chunks env request_id ys 0 0 w3 of
                       (Inl e, w4) \<Rightarrow> (Inl e, w4)
                     | (Inr (chunk_index, total_size), w4) \<Rightarrow>
                         (case loop_time env (tts_finally env temp_filename w4) of
                            (t', w5) \<Rightarrow>
                              ws_send env (end_message request_id chunk_index total_size t') w5)))))"

definition stream_failed_prefix :: pystr where
  "stream_failed_prefix = [0x97F3, 0x9891, 0x6D41, 0x53D1, 0x9001, 0x5931, 0x8D25, 0x3A, 0x20]"

definition synthesize_and_stream :: "env \<Rightarrow> pystr \<Rightarrow> json \<Rightarrow> world \<Rightarrow> (pyexc + unit) \<times> world" where
  "synthesize_and_stream env text request_id w =
     (case stream_body env text request_id w of
        (Inr u, w') \<Rightarrow> (Inr (), w')
      | (Inl e, w') \<Rightarrow>
          (case loop_time env w' of
             (t, w'') \<Rightarrow>
               ws_send env (error_message request_id (stream_failed_prefix @ exc_str e) t) w''))"

section \<open>core/websocket_server.py: TTSWebSocketServer\<close>

text \<open>\<open>SpeechSynthesizer.get_voice_info\<close> (core/tts.py, lines 183-195).\<close>

definition get_voice_info :: "env \<Rightarrow> json" where
  "get_voice_info env =
     (let vs = voices env;
          current_voice = (if vs \<noteq> [] \<and> length vs > VOICE_INDEX then Some (vs ! VOICE_INDEX) else None)
      in JObj
        [(str ''rate'', JInt RATE),
         (str ''volume'', JFloat VOLUME),
         (str ''voice_index'', JInt (int VOICE_INDEX)),
         (str ''current_voice'',
            JStr (case current_voice of Some name \<Rightarrow> name | None \<Rightarrow> str ''Unknown'')),
         (str ''available_voices'', JInt (int (length vs))),
         (str ''voices'',
            JArr (map (\<lambda>(i, name). JObj [(str ''id'', JInt (int i)), (str ''name'', JStr name)])
                      (zip [0..<length vs] vs)))])"

definition service_name :: pystr where
  "service_name = [0x6D41, 0x5F0F, 0x8BED, 0x97F3, 0x5408, 0x6210, 0x670D, 0x52A1]"

definition welcome_message :: "env \<Rightarrow> pystr \<Rightarrow> rat \<Rightarrow> message" where
  "welcome_message env connection_id t =
     [(str ''type'', JStr (str ''welcome'')),
      (str ''connection_id'', JStr connection_id),
      (str ''service'', JStr service_name),
      (str ''version'', JStr (str ''1.0.0'')),
      (str ''supported_formats'', JArr [JStr (str ''wav'')]),
      (str ''voice_info'', get_voice_info env),
      (str ''timestamp'', JFloat t)]"

definition send_welcome_message :: "env \<Rightarrow> pystr \<Rightarrow> world \<Rightarrow> (pyexc + unit) \<times> world" where
  "send_welcome_message env connection_id w =
     (case loop_time env w of (t, w') \<Rightarrow> ws_send env (welcome_message env connection_id t) w')"

definition voice_info_message :: "env \<Rightarrow> json \<Rightarrow> rat \<Rightarrow> message" where
  "voice_info_message env request_id t =
     [(str ''type'', JStr (str ''voice_info'')),
      (str ''request_id'', request_id),
      (str ''data'', get_voice_info env),
      (str ''timestamp'', JFloat t)]"

definition send_voice_info :: "env \<Rightarrow> json \<Rightarrow> world \<Rightarrow> (pyexc + unit) \<times> world" where
  "send_voice_info env request_id w =
     (case loop_time env w of (t, w') \<Rightarrow> ws_send env (voice_info_message env request_id t) w')"

definition pong_message :: "json \<Rightarrow> rat \<Rightarrow> message" where
  "pong_message request_id t =
     [(str ''type'', JStr (str ''pong'')),
      (str ''request_id'', request_id),
      (str ''timestamp'', JFloat t)]"

definition send_pong :: "env \<Rightarrow> json \<Rightarrow> world \<Rightarrow> (pyexc + unit) \<times> world" where
  "send_pong env request_id w =
     (case loop_time env w of (t, w') \<Rightarrow> ws_send env (pong_message request_id t) w')"

definition send_error :: "env \<Rightarrow> pystr \<Rightarrow> json \<Rightarrow> world \<Rightarrow> (pyexc + unit) \<times> world" where
  "send_error env text request_id w =
     (case loop_time env w of (t, w') \<Rightarrow> ws_send env (error_message request_id text t) w')"

text \<open>The texts of the error messages, as code points.\<close>

definition empty_text_error :: pystr where
  "empty_text_error = [0x6587, 0x672C, 0x5185, 0x5BB9, 0x4E0D, 0x80FD, 0x4E3A, 0x7A7A]"

definition text_too_long_error :: pystr where
  "text_too_long_error =
     [0x6587, 0x672C, 0x957F, 0x5EA6, 0x8D85, 0x8FC7, 0x9650, 0x5236, 0x28] @ str ''10000'' @
     [0x5B57, 0x7B26, 0x29]"

definition invalid_json_error :: pystr where
  "invalid_json_error = [0x65E0, 0x6548, 0x7684] @ str ''JSON'' @ [0x683C, 0x5F0F]"

definition unknown_type_prefix :: pystr where
  "unknown_type_prefix = [0x672A, 0x77E5, 0x7684, 0x6D88, 0x606F, 0x7C7B, 0x578B, 0x3A, 0x20]"

text \<open>
  \<open>_handle_synthesis_request\<close>. \<open>text\<close> is whatever the message holds under \<open>"text"\<close>:
  \<open>not text\<close> is Python truthiness, and \<open>text.strip()\<close> raises \<open>AttributeError\<close> on
  a value that is not a \<open>str\<close>.
\<close>

definition handle_synthesis_request :: "env \<Rightarrow> json \<Rightarrow> json \<Rightarrow> world \<Rightarrow> (pyexc + unit) \<times> world" where
  "handle_synthesis_request env text request_id w =
     (if \<not> truthy text then send_error env empty_text_error request_id w
      else
        case text of
          JStr s \<Rightarrow>
            if length (strip s) = 0 then send_error env empty_text_error request_id w
            else if length s > 10000 then send_error env text_too_long_error request_id w
            else synthesize_and_stream env s request_id w
        | _ \<Rightarrow> (Inl (no_attribute text ''strip''), w))"

text \<open>What \<open>{message_type}\<close> inside the f-string of line 70 gives.\<close>

definition format_value :: "env \<Rightarrow> json \<Rightarrow> pystr" where
  "format_value env v = (case v of JStr s \<Rightarrow> s | _ \<Rightarrow> py_format env v)"

text \<open>The \<open>try\<close> body of \<open>_handle_message\<close> (lines 58-70).\<close>

definition dispatch_message :: "env \<Rightarrow> pystr \<Rightarrow> world \<Rightarrow> (pyexc + unit) \<times> world" where
  "dispatch_message env message w =
     (case json_loads env message of
        Inl e \<Rightarrow> (Inl e, w)
      | Inr data \<Rightarrow>
          (case data of
             JObj d \<Rightarrow>
               let message_type = dict_get d (str ''type'') (JStr []);
                   request_id = dict_get d (str ''request_id'') (JStr (uuid4 env (uuids w)));
                   w' = w\<lparr>uuids := Suc (uuids w)\<rparr>;
                   text = dict_get d (str ''text'') (JStr [])
               in if message_type = JStr (str ''synthesize'') then
                    handle_synthesis_request env text request_id w'
                  else if message_type = JStr (str ''get_voices'') then
                    send_voice_info env request_id w'
                  else if message_type = JStr (str ''ping'') then
                    send_pong env request_id w'
                  else
                    send_error env (unknown_type_prefix @ format_value env message_type) request_id w'
           | _ \<Rightarrow> (Inl (no_attribute data ''get''), w)))"

text \<open>
  \<open>_handle_message\<close>: the two handlers of lines 72-76. An exception raised by the send
  inside a handler leaves the function.
\<close>

definition handle_message :: "env \<Rightarrow> pystr \<Rightarrow> world \<Rightarrow> (pyexc + unit) \<times> world" where
  "handle_message env message w =
     (case dispatch_message env message w of
        (Inr u, w') \<Rightarrow> (Inr (), w')
      | (Inl e, w') \<Rightarrow>
          (case e of
             JSONDecodeError s \<Rightarrow> send_error env invalid_json_error (JStr (str ''invalid'')) w'
           | _ \<Rightarrow> send_error env (exc_str e) (JStr (str ''error'')) w'))"

text \<open>The \<open>async for\<close> of lines 30-31 over the messages the client sends before it closes.\<close>

fun handle_messages :: "env \<Rightarrow> pystr list \<Rightarrow> world \<Rightarrow> (pyexc + unit) \<times> world" where
  "handle_messages env [] w = (Inr (), w)"
| "handle_messages env (message # rest) w =
     (case handle_message env message w of
        (Inl e, w') \<Rightarrow> (Inl e, w')
      | (Inr u, w') \<Rightarrow> handle_messages env rest w')"

text \<open>
  \<open>handle_connection\<close>: the connection is registered, welcomed and served; both
  \<open>except\<close> clauses only log, and the \<open>finally\<close> block removes the connection.
\<close>

definition handle_connection :: "env \<Rightarrow> pystr list \<Rightarrow> world \<Rightarrow> world" where
  "handle_connection env inbound w =
     (let connection_id = uuid4 env (uuids w);
          w0 = w\<lparr>uuids := Suc (uuids w)\<rparr>
      in case loop_time env w0 of
           (t, w1) \<Rightarrow>
             let w2 = w1\<lparr>active_connections := (active_connections w1)(connection_id \<mapsto> t)\<rparr>;
                 w3 = (case send_welcome_message env connection_id w2 of
                         (Inl e, w') \<Rightarrow> w'
                       | (Inr u, w') \<Rightarrow> snd (handle_messages env inbound w'))
             in w3\<lparr>active_connections := (active_connections w3)(connection_id := None)\<rparr>)"

text \<open>
  \<open>start_server\<close> enters \<open>async with websockets.serve(...)\<close>, which opens the listening
  socket, and awaits a future that nothing resolves: the block is not left. This is the
  state while it waits.
\<close>

definition start_server :: "world \<Rightarrow> world" where
  "start_server w = w\<lparr>serving := True\<rparr>"

text \<open>
  \<open>stop_server\<close> (lines 134-137) calls \<open>self.tts_engine.stop()\<close> and logs;
  \<open>SpeechSynthesizer.stop\<close> (core/tts.py, lines 197-203) calls \<open>engine.stop()\<close>.
\<close>

definition stop_server :: "world \<Rightarrow> world" where
  "stop_server w = w\<lparr>engine_stopped := True\<rparr>"

section \<open>app.py: TTSService\<close>

record service =
  is_running :: bool
  exited :: bool
    \<comment> \<open>\<open>sys.exit(0)\<close> was called\<close>
  server :: world

text \<open>
  \<open>run\<close> sets \<open>is_running\<close>, registers \<open>graceful_shutdown\<close> for SIGINT and SIGTERM and
  awaits \<open>start_server\<close>; this is the state while it waits.
\<close>

definition run :: "service \<Rightarrow> service" where
  "run svc = svc\<lparr>is_running := True, server := start_server (server svc)\<rparr>"

definition graceful_shutdown :: "env \<Rightarrow> service \<Rightarrow> service" where
  "graceful_shutdown env svc =
     (if is_running svc then
        let svc' = svc\<lparr>server := stop_server (server svc)\<rparr>;
            svc'' = svc'\<lparr>is_running := False\<rparr>
        in if platform_system env = str ''Windows'' then svc''\<lparr>exited := True\<rparr> else svc''
      else svc)"

text \<open>
  \<open>websockets.serve\<close> hands every new connection to \<open>handle_connection\<close> for as long as
  its listening socket is open and the process lives.
\<close>

definition accept :: "env \<Rightarrow> pystr list \<Rightarrow> service \<Rightarrow> service option" where
  "accept env inbound svc =
     (if serving (server svc) \<and> \<not> exited svc
      then Some (svc\<lparr>server := handle_connection env inbound (server svc)\<rparr>)
      else None)"

section \<open>Observing the messages\<close>

text \<open>A field of a message, and the messages of a given type.\<close>

definition msg_get :: "message \<Rightarrow> string \<Rightarrow> json option" where
  "msg_get m k = map_of m (str k)"

definition has_type :: "string \<Rightarrow> message \<Rightarrow> bool" where
  "has_type ty m \<longleftrightarrow> msg_get m ''type'' = Some (JStr (str ty))"

definition int_field :: "string \<Rightarrow> message \<Rightarrow> int" where
  "int_field k m = (case msg_get m k of Some (JInt n) \<Rightarrow> n | _ \<Rightarrow> 0)"

text \<open>The messages delivered between two states of the same connection.\<close>

definition new_messages :: "world \<Rightarrow> world \<Rightarrow> message list" where
  "new_messages w w' = drop (length (sent w)) (sent w')"

text \<open>
  The \<open>audio_chunk\<close> messages the loop of \<open>synthesize_and_stream\<close> builds for the values a
  generator yields, when no send interrupts it.
\<close>

fun chunk_messages :: "env \<Rightarrow> json \<Rightarrow> bytes list \<Rightarrow> int \<Rightarrow> int \<Rightarrow> message list" where
  "chunk_messages env request_id [] chunk_index total_size = []"
| "chunk_messages env request_id (c # cs) chunk_index total_size =
     (if c = [] then chunk_messages env request_id cs chunk_index total_size
      else chunk_message env request_id (chunk_index + 1) c (total_size + int (length c)) #
           chunk_messages env request_id cs (chunk_index + 1) (total_size + int (length c)))"

text \<open>Every send made between two states was delivered.\<close>

definition sends_ok :: "env \<Rightarrow> world \<Rightarrow> world \<Rightarrow> bool" where
  "sends_ok env w w' \<longleftrightarrow> (\<forall>n. attempts w \<le> n \<and> n < attempts w' \<longrightarrow> send_result env n = None)"


text \<open>
  The envelope of an outbound message: one of the seven types; a \<open>connection_id\<close> on
  \<open>welcome\<close> and a \<open>request_id\<close> on every other type; a \<open>timestamp\<close> on every type but
  \<open>audio_chunk\<close>.
\<close>

definition envelope :: "message \<Rightarrow> bool" where
  "envelope m \<longleftrightarrow>
     (has_type ''welcome'' m \<or> has_type ''voice_info'' m \<or> has_type ''synthesis_start'' m \<or>
      has_type ''audio_chunk'' m \<or> has_type ''synthesis_complete'' m \<or> has_type ''pong'' m \<or>
      has_type ''error'' m) \<and>
     (if has_type ''welcome'' m then msg_get m ''connection_id'' \<noteq> None
      else msg_get m ''request_id'' \<noteq> None) \<and>
     (has_type ''audio_chunk'' m \<or> msg_get m ''timestamp'' \<noteq> None)"

text \<open>A step that only appends messages with that envelope to what was delivered.\<close>

definition appends :: "world \<Rightarrow> world \<Rightarrow> bool" where
  "appends w w' \<longleftrightarrow> (\<exists>xs. sent w' = sent w @ xs \<and> (\<forall>m\<in>set xs. envelope m))"

section \<open>A concrete environment\<close>

text \<open>Some messages a client may send, and what \<open>json.loads\<close> makes of them.\<close>

definition bad_text :: pystr where
  \<open>bad_text = str ''{"type": "ping", ''\<close>

definition ping_text :: pystr where
  \<open>ping_text = str ''{"type": "ping", "request_id": "X"}''\<close>

definition shout_text :: pystr where
  \<open>shout_text = str ''{"type": "shout", "request_id": "r7"}''\<close>

definition blank_text :: pystr where
  \<open>blank_text = str ''{"type": "synthesize", "request_id": "r2", "text": "   "}''\<close>

definition long_text :: pystr where
  \<open>long_text = str ''{"type": "synthesize", "request_id": "r4", "text": "'' @ replicate 10001 97 @ str ''"}''\<close>

definition no_text :: pystr where
  \<open>no_text = str ''{"type": "synthesize", "request_id": "r3"}''\<close>

definition hi_text :: pystr where
  \<open>hi_text = str ''{"type": "synthesize", "request_id": "r1", "text": "hi"}''\<close>

definition demo_loads :: "pystr \<Rightarrow> pyexc + json" where
  "demo_loads s =
     (if s = ping_text then
        Inr (JObj [(str ''type'', JStr (str ''ping'')), (str ''request_id'', JStr (str ''X''))])
      else if s = shout_text then
        Inr (JObj [(str ''type'', JStr (str ''shout'')), (str ''request_id'', JStr (str ''r7''))])
      else if s = blank_text then
        Inr (JObj [(str ''type'', JStr (str ''synthesize'')), (str ''request_id'', JStr (str ''r2'')),
                   (str ''text'', JStr (str ''   ''))])
      else if s = long_text then
        Inr (JObj [(str ''type'', JStr (str ''synthesize'')), (str ''request_id'', JStr (str ''r4'')),
                   (str ''text'', JStr (replicate 10001 97))])
      else if s = no_text then
        Inr (JObj [(str ''type'', JStr (str ''synthesize'')), (str ''request_id'', JStr (str ''r3''))])
      else if s = hi_text then
        Inr (JObj [(str ''type'', JStr (str ''synthesize'')), (str ''request_id'', JStr (str ''r1'')),
                   (str ''text'', JStr (str ''hi''))])
      else Inl (JSONDecodeError (str ''Expecting property name enclosed in double quotes'')))"

text \<open>
  Every send is delivered, the engine writes 4097 bytes (two chunks), no file operation
  fails.
\<close>

definition env0 :: env where
  "env0 = \<lparr>send_result = (\<lambda>n. None),
           loop_clock = (\<lambda>n. of_nat n),
           uuid4 = (\<lambda>n. str ''uuid-'' @ [48 + n]),
           json_loads = demo_loads,
           py_format = (\<lambda>v. str (py_type_name v)),
           b64encode = (\<lambda>bs. map unat bs),
           mktemp = (\<lambda>n. Inr [str ''/tmp/tmp'' @ [48 + n]]),
           engine = (\<lambda>n text. (None, Some (replicate 4097 1))),
           read_error = (\<lambda>name i. None),
           unlink_error = (\<lambda>name. None),
           voices = [str ''voice0''],
           platform_system = str ''Linux''\<rparr>"

definition w0 :: world where
  "w0 = \<lparr>sent = [], attempts = 0, ticks = 0, uuids = 0, runs = 0, fs = (\<lambda>name. None),
         synthesize_runs = [], active_connections = (\<lambda>c. None), engine_stopped = False,
         serving = False\<rparr>"

text \<open>The same environment with an engine that raises and leaves the file empty.\<close>

definition env_engine_fails :: env where
  "env_engine_fails =
     env0\<lparr>engine := (\<lambda>n text. (Some (OtherException (str ''run loop already started'')), Some []))\<rparr>"

text \<open>The same environment with a connection that drops at the third send.\<close>

definition env_send_fails :: env where
  "env_send_fails =
     env0\<lparr>send_result := (\<lambda>n. if n = 2 then Some (ConnectionClosed (str ''no close frame received or sent''))
                                  else None)\<rparr>"

text \<open>The same environment where \<open>os.unlink\<close> is refused.\<close>

definition env_unlink_fails :: env where
  "env_unlink_fails =
     env0\<lparr>unlink_error := (\<lambda>name. Some (OSError (str ''[WinError 32] The process cannot access the file'')))\<rparr>"

text \<open>A service that has not started yet.\<close>

definition svc0 :: service where
  "svc0 = \<lparr>is_running = False, exited = False, server = w0\<rparr>"



definition deep_text :: pystr where
  "deep_text = replicate 100000 91"

definition env_deep :: env where
  "env_deep =
     env0\<lparr>json_loads := (\<lambda>s. if s = deep_text then
         Inl (RecursionError (str ''maximum recursion depth exceeded while decoding a JSON array from a unicode string''))
       else demo_loads s)\<rparr>"



section \<open>The streamer\<close>

declare read_loop.simps [simp del]

lemma ws_send_Inr:
  "ws_send env m w = (Inr u, w') \<Longrightarrow>
     w' = w\<lparr>sent := sent w @ [m], attempts := Suc (attempts w)\<rparr> \<and> send_result env (attempts w) = None"
  by (auto simp: ws_send_def split: option.splits)

lemma ws_send_Inl:
  "ws_send env m w = (Inl e, w') \<Longrightarrow>
     w' = w\<lparr>attempts := Suc (attempts w)\<rparr> \<and> send_result env (attempts w) = Some e"
  by (auto simp: ws_send_def split: option.splits)

lemma loop_time_sent: "loop_time env w = (t, w') \<Longrightarrow> sent w' = sent w"
  by (auto simp: loop_time_def)

lemma tts_begin_sent: "tts_begin env text n w = (tmp, ys, w') \<Longrightarrow> sent w' = sent w"
  by (auto simp: tts_begin_def Let_def split: if_splits sum.splits option.splits prod.splits)

lemma tts_finally_sent: "sent (tts_finally env tmp w) = sent w"
  by (auto simp: tts_finally_def split: option.splits)

lemma stream_chunks_Inr:
  "stream_chunks env rid ys i t w = (Inr (i', t'), w') \<Longrightarrow>
     sent w' = sent w @ chunk_messages env rid ys i t \<and>
     i' = i + int (length (chunk_messages env rid ys i t)) \<and>
     t' = t + int (length (concat ys))"
proof (induction ys arbitrary: i t w)
  case Nil
  then show ?case by simp
next
  case (Cons c cs)
  show ?case
  proof (cases "c = []")
    case True
    with Cons show ?thesis by simp
  next
    case False
    let ?m = "chunk_message env rid (i + 1) c (t + int (length c))"
    from Cons.prems False obtain w1 where
      s: "ws_send env ?m w = (Inr (), w1)" and
      r: "stream_chunks env rid cs (i + 1) (t + int (length c)) w1 = (Inr (i', t'), w')"
      by (auto simp: Let_def split: prod.splits sum.splits)
    from ws_send_Inr[OF s] have "sent w1 = sent w @ [?m]" by simp
    with Cons.IH[OF r] False show ?thesis by simp
  qed
qed

lemma stream_chunks_Inl:
  "stream_chunks env rid ys i t w = (Inl e, w') \<Longrightarrow>
     \<exists>k. sent w' = sent w @ take k (chunk_messages env rid ys i t)"
proof (induction ys arbitrary: i t w)
  case Nil
  then show ?case by simp
next
  case (Cons c cs)
  show ?case
  proof (cases "c = []")
    case True
    with Cons show ?thesis by simp
  next
    case False
    let ?m = "chunk_message env rid (i + 1) c (t + int (length c))"
    obtain r1 w1 where s: "ws_send env ?m w = (r1, w1)" by (cases "ws_send env ?m w")
    show ?thesis
    proof (cases r1)
      case (Inl e1)
      with s Cons.prems False have "w' = w1" by (simp add: Let_def)
      moreover from s Inl ws_send_Inl have "sent w1 = sent w" by fastforce
      ultimately have "sent w' = sent w @ take 0 (chunk_messages env rid (c # cs) i t)" by simp
      then show ?thesis by blast
    next
      case (Inr u)
      with s Cons.prems False have
        r: "stream_chunks env rid cs (i + 1) (t + int (length c)) w1 = (Inl e, w')"
        by (simp add: Let_def)
      from s Inr ws_send_Inr have s1: "sent w1 = sent w @ [?m]" by fastforce
      from Cons.IH[OF r] obtain k where
        "sent w' = sent w1 @ take k (chunk_messages env rid cs (i + 1) (t + int (length c)))" by blast
      with s1 False have "sent w' = sent w @ take (Suc k) (chunk_messages env rid (c # cs) i t)"
        by simp
      then show ?thesis by blast
    qed
  qed
qed


lemma stream_body_Inr:
  assumes "stream_body env text rid w = (Inr u, w')"
  shows "\<exists>t t' ys. sent w' = sent w @ start_message rid text t # chunk_messages env rid ys 0 0 @
            [end_message rid (int (length (chunk_messages env rid ys 0 0))) (int (length (concat ys))) t']"
proof -
  obtain t w1 where a: "loop_time env w = (t, w1)" by (cases "loop_time env w")
  from assms a obtain w2 where b: "ws_send env (start_message rid text t) w1 = (Inr (), w2)"
    by (auto simp: stream_body_def split: prod.splits sum.splits)
  obtain tmp ys w3 where c: "tts_begin env text CHUNK_SIZE w2 = (tmp, ys, w3)"
    by (cases "tts_begin env text CHUNK_SIZE w2")
  from assms a b c obtain i' t' w4 where d: "stream_chunks env rid ys 0 0 w3 = (Inr (i', t'), w4)"
    by (auto simp: stream_body_def split: prod.splits sum.splits)
  obtain tt w5 where e: "loop_time env (tts_finally env tmp w4) = (tt, w5)"
    by (cases "loop_time env (tts_finally env tmp w4)")
  from assms a b c d e have f: "ws_send env (end_message rid i' t' tt) w5 = (Inr u, w')"
    by (simp add: stream_body_def)
  have "sent w1 = sent w" using a by (rule loop_time_sent)
  moreover have "sent w2 = sent w1 @ [start_message rid text t]" using ws_send_Inr[OF b] by simp
  moreover have "sent w3 = sent w2" using c by (rule tts_begin_sent)
  moreover note stream_chunks_Inr[OF d]
  moreover have "sent w5 = sent w4" using loop_time_sent[OF e] by (simp add: tts_finally_sent)
  moreover have "sent w' = sent w5 @ [end_message rid i' t' tt]" using ws_send_Inr[OF f] by simp
  ultimately have "sent w' = sent w @ start_message rid text t # chunk_messages env rid ys 0 0 @
            [end_message rid (int (length (chunk_messages env rid ys 0 0))) (int (length (concat ys))) tt]"
    by simp
  then show ?thesis by blast
qed

lemma stream_body_Inl:
  assumes "stream_body env text rid w = (Inl e, w')"
  shows "\<exists>t ys k. sent w' = sent w @ take k (start_message rid text t # chunk_messages env rid ys 0 0)"
proof -
  obtain t w1 where a: "loop_time env w = (t, w1)" by (cases "loop_time env w")
  have s1: "sent w1 = sent w" using a by (rule loop_time_sent)
  obtain r2 w2 where b: "ws_send env (start_message rid text t) w1 = (r2, w2)"
    by (cases "ws_send env (start_message rid text t) w1")
  show ?thesis
  proof (cases r2)
    case (Inl e2)
    with assms a b have "w' = w2" by (simp add: stream_body_def)
    moreover from b Inl ws_send_Inl have "sent w2 = sent w1" by fastforce
    ultimately have "sent w' = sent w @ take 0 (start_message rid text t # chunk_messages env rid [] 0 0)"
      using s1 by simp
    then show ?thesis by blast
  next
    case (Inr u2)
    with b ws_send_Inr have s2: "sent w2 = sent w1 @ [start_message rid text t]" by fastforce
    obtain tmp ys w3 where c: "tts_begin env text CHUNK_SIZE w2 = (tmp, ys, w3)"
      by (cases "tts_begin env text CHUNK_SIZE w2")
    have s3: "sent w3 = sent w2" using c by (rule tts_begin_sent)
    obtain r4 w4 where d: "stream_chunks env rid ys 0 0 w3 = (r4, w4)"
      by (cases "stream_chunks env rid ys 0 0 w3")
    show ?thesis
    proof (cases r4)
      case (Inl e4)
      with assms a b Inr c d have "w' = w4" by (simp add: stream_body_def)
      moreover from d Inl stream_chunks_Inl obtain k where
        "sent w4 = sent w3 @ take k (chunk_messages env rid ys 0 0)" by blast
      ultimately have "sent w' = sent w @ take (Suc k) (start_message rid text t # chunk_messages env rid ys 0 0)"
        using s1 s2 s3 by simp
      then show ?thesis by blast
    next
      case (Inr p)
      obtain i' t' where p: "p = (i', t')" by (cases p)
      obtain tt w5 where e5: "loop_time env (tts_finally env tmp w4) = (tt, w5)"
        by (cases "loop_time env (tts_finally env tmp w4)")
      from assms a b \<open>r2 = Inr u2\<close> c d Inr p e5
      have f: "ws_send env (end_message rid i' t' tt) w5 = (Inl e, w')"
        by (simp add: stream_body_def)
      have "sent w5 = sent w4" using loop_time_sent[OF e5] by (simp add: tts_finally_sent)
      moreover have "sent w' = sent w5" using ws_send_Inl[OF f] by simp
      moreover from d Inr p stream_chunks_Inr have "sent w4 = sent w3 @ chunk_messages env rid ys 0 0"
        by blast
      ultimately have "sent w' = sent w @ take (Suc (length (chunk_messages env rid ys 0 0)))
          (start_message rid text t # chunk_messages env rid ys 0 0)"
        using s1 s2 s3 by simp
      then show ?thesis by blast
    qed
  qed
qed


lemma synthesize_and_stream_sent:
  assumes "synthesize_and_stream env text rid w = (r, w')"
  shows "\<exists>t ys.
     (\<exists>t'. sent w' = sent w @ start_message rid text t # chunk_messages env rid ys 0 0 @
            [end_message rid (int (length (chunk_messages env rid ys 0 0))) (int (length (concat ys))) t'])
     \<or> (\<exists>k post. sent w' = sent w @ take k (start_message rid text t # chunk_messages env rid ys 0 0) @ post \<and>
            (post = [] \<or> (\<exists>msg t''. post = [error_message rid msg t''])))"
proof -
  obtain r1 w1 where a: "stream_body env text rid w = (r1, w1)" by (cases "stream_body env text rid w")
  show ?thesis
  proof (cases r1)
    case (Inr u)
    with a assms have "w' = w1" by (simp add: synthesize_and_stream_def)
    with a Inr stream_body_Inr show ?thesis by blast
  next
    case (Inl e)
    with a stream_body_Inl obtain t ys k where
      s1: "sent w1 = sent w @ take k (start_message rid text t # chunk_messages env rid ys 0 0)"
      by blast
    obtain tt w2 where b: "loop_time env w1 = (tt, w2)" by (cases "loop_time env w1")
    let ?m = "error_message rid (stream_failed_prefix @ exc_str e) tt"
    from assms a Inl b have c: "ws_send env ?m w2 = (r, w')"
      by (simp add: synthesize_and_stream_def)
    have s2: "sent w2 = sent w1" using b by (rule loop_time_sent)
    have "sent w' = sent w2 \<or> sent w' = sent w2 @ [?m]"
      using c by (auto simp: ws_send_def split: option.splits)
    then show ?thesis
    proof
      assume "sent w' = sent w2"
      with s1 s2 have "sent w' = sent w @ take k (start_message rid text t # chunk_messages env rid ys 0 0) @ []"
        by simp
      then show ?thesis by blast
    next
      assume "sent w' = sent w2 @ [?m]"
      with s1 s2 have "sent w' = sent w @ take k (start_message rid text t # chunk_messages env rid ys 0 0) @ [?m]"
        by simp
      then show ?thesis by blast
    qed
  qed
qed

lemma chunk_messages_filter:
  "chunk_messages env rid (filter (\<lambda>c. c \<noteq> []) ys) i t = chunk_messages env rid ys i t"
  by (induction ys arbitrary: i t) auto

lemma chunk_messages_length: "length (chunk_messages env rid ys i t) = length (filter (\<lambda>c. c \<noteq> []) ys)"
  by (induction ys arbitrary: i t) auto

lemma chunk_messages_nth:
  "j < length (filter (\<lambda>c. c \<noteq> []) ys) \<Longrightarrow>
   chunk_messages env rid ys i t ! j =
     chunk_message env rid (i + 1 + int j) (filter (\<lambda>c. c \<noteq> []) ys ! j)
       (t + int (length (concat (take (Suc j) (filter (\<lambda>c. c \<noteq> []) ys)))))"
proof (induction ys arbitrary: i t j)
  case Nil
  then show ?case by simp
next
  case (Cons c cs)
  show ?case
  proof (cases "c = []")
    case True
    with Cons show ?thesis by simp
  next
    case False
    show ?thesis
    proof (cases j)
      case 0
      with False show ?thesis by simp
    next
      case (Suc j')
      with Cons.prems False have "j' < length (filter (\<lambda>c. c \<noteq> []) cs)" by simp
      from Cons.IH[OF this, of "i + 1" "t + int (length c)"] Suc False
      show ?thesis by (simp add: add.assoc)
    qed
  qed
qed

lemma concat_filter_nonempty: "concat (filter (\<lambda>c. c \<noteq> []) ys) = concat ys"
  by (induction ys) auto


lemma new_messages_append: "sent w' = sent w @ xs \<Longrightarrow> new_messages w w' = xs"
  by (simp add: new_messages_def)

lemma chunk_message_fields:
  "has_type ''audio_chunk'' (chunk_message env rid i c t)"
  "\<not> has_type ''synthesis_complete'' (chunk_message env rid i c t)"
  "msg_get (chunk_message env rid i c t) ''request_id'' = Some rid"
  "msg_get (chunk_message env rid i c t) ''chunk_index'' = Some (JInt i)"
  "msg_get (chunk_message env rid i c t) ''audio_data'' = Some (JStr (b64encode env c))"
  "msg_get (chunk_message env rid i c t) ''chunk_size'' = Some (JInt (int (length c)))"
  "msg_get (chunk_message env rid i c t) ''total_size'' = Some (JInt t)"
  "msg_get (chunk_message env rid i c t) ''timestamp'' = None"
  by (simp_all add: has_type_def msg_get_def chunk_message_def str_def)

lemma start_message_fields:
  "has_type ''synthesis_start'' (start_message rid text t)"
  "\<not> has_type ''audio_chunk'' (start_message rid text t)"
  "\<not> has_type ''synthesis_complete'' (start_message rid text t)"
  "\<not> has_type ''error'' (start_message rid text t)"
  "msg_get (start_message rid text t) ''request_id'' = Some rid"
  "msg_get (start_message rid text t) ''timestamp'' = Some (JFloat t)"
  by (simp_all add: has_type_def msg_get_def start_message_def str_def)

lemma end_message_fields:
  "has_type ''synthesis_complete'' (end_message rid i n t)"
  "\<not> has_type ''audio_chunk'' (end_message rid i n t)"
  "\<not> has_type ''error'' (end_message rid i n t)"
  "msg_get (end_message rid i n t) ''request_id'' = Some rid"
  "msg_get (end_message rid i n t) ''total_chunks'' = Some (JInt i)"
  "msg_get (end_message rid i n t) ''total_size'' = Some (JInt n)"
  "msg_get (end_message rid i n t) ''timestamp'' = Some (JFloat t)"
  by (simp_all add: has_type_def msg_get_def end_message_def str_def)

lemma error_message_fields:
  "has_type ''error'' (error_message rid msg t)"
  "\<not> has_type ''audio_chunk'' (error_message rid msg t)"
  "\<not> has_type ''synthesis_complete'' (error_message rid msg t)"
  "msg_get (error_message rid msg t) ''request_id'' = Some rid"
  "msg_get (error_message rid msg t) ''message'' = Some (JStr msg)"
  "msg_get (error_message rid msg t) ''timestamp'' = Some (JFloat t)"
  by (simp_all add: has_type_def msg_get_def error_message_def str_def)

lemma chunk_messages_types:
  "m \<in> set (chunk_messages env rid ys i t) \<Longrightarrow>
     has_type ''audio_chunk'' m \<and> \<not> has_type ''synthesis_complete'' m \<and>
     msg_get m ''request_id'' = Some rid"
  by (induction ys arbitrary: i t) (auto simp: chunk_message_fields split: if_splits)

lemma chunk_messages_form:
  "m \<in> set (chunk_messages env rid ys i t) \<Longrightarrow> \<exists>i' b t'. m = chunk_message env rid i' b t'"
  by (induction ys arbitrary: i t) (auto split: if_splits)

lemma filter_audio_chunk_messages:
  "filter (has_type ''audio_chunk'') (take k (chunk_messages env rid ys i t)) =
     take k (chunk_messages env rid ys i t)"
  by (rule filter_True) (auto dest: in_set_takeD chunk_messages_types)

lemma filter_complete_chunk_messages:
  "filter (has_type ''synthesis_complete'') (take k (chunk_messages env rid ys i t)) = []"
  by (auto simp: filter_empty_conv dest: in_set_takeD chunk_messages_types)

lemma chunk_messages_sizes:
  "sum_list (map (int_field ''chunk_size'') (chunk_messages env rid ys i t)) = int (length (concat ys))"
  by (induction ys arbitrary: i t) (auto simp: int_field_def chunk_message_fields)


lemma stream_summary:
  assumes "synthesize_and_stream env text rid w = (r, w')"
  shows "\<exists>ys j. filter (has_type ''audio_chunk'') (new_messages w w') =
                  take j (chunk_messages env rid ys 0 0) \<and>
          (\<forall>m\<in>set (new_messages w w'). has_type ''synthesis_complete'' m \<longrightarrow>
             length (chunk_messages env rid ys 0 0) \<le> j \<and>
             (\<exists>t'. m = end_message rid (int (length (chunk_messages env rid ys 0 0)))
                         (int (length (concat ys))) t'))"
proof -
  from synthesize_and_stream_sent[OF assms] obtain t ys where
    d: "(\<exists>t'. sent w' = sent w @ start_message rid text t # chunk_messages env rid ys 0 0 @
            [end_message rid (int (length (chunk_messages env rid ys 0 0))) (int (length (concat ys))) t'])
     \<or> (\<exists>k post. sent w' = sent w @ take k (start_message rid text t # chunk_messages env rid ys 0 0) @ post \<and>
            (post = [] \<or> (\<exists>msg t''. post = [error_message rid msg t''])))"
    by blast
  let ?cms = "chunk_messages env rid ys 0 0"
  let ?new = "new_messages w w'"
  from d show ?thesis
  proof
    assume "\<exists>t'. sent w' = sent w @ start_message rid text t # ?cms @
            [end_message rid (int (length ?cms)) (int (length (concat ys))) t']"
    then obtain t' where
      n: "?new = start_message rid text t # ?cms @ [end_message rid (int (length ?cms)) (int (length (concat ys))) t']"
      by (auto dest: new_messages_append)
    have "filter (has_type ''audio_chunk'') ?new = take (length ?cms) ?cms"
      using filter_audio_chunk_messages[of "length ?cms" env rid ys 0 0]
      by (simp add: n start_message_fields end_message_fields)
    moreover have "\<forall>m\<in>set ?new. has_type ''synthesis_complete'' m \<longrightarrow>
        length ?cms \<le> length ?cms \<and> (\<exists>t'. m = end_message rid (int (length ?cms)) (int (length (concat ys))) t')"
      using n by (auto simp: start_message_fields dest: chunk_messages_types)
    ultimately show ?thesis by blast
  next
    assume "\<exists>k post. sent w' = sent w @ take k (start_message rid text t # ?cms) @ post \<and>
            (post = [] \<or> (\<exists>msg t''. post = [error_message rid msg t'']))"
    then obtain k post where
      n: "?new = take k (start_message rid text t # ?cms) @ post" and
      p: "post = [] \<or> (\<exists>msg t''. post = [error_message rid msg t''])"
      by (auto dest: new_messages_append)
    from p have fp: "filter (has_type ''audio_chunk'') post = []"
      and cp: "filter (has_type ''synthesis_complete'') post = []"
      by (auto simp: error_message_fields)
    have "filter (has_type ''audio_chunk'') ?new = take (k - 1) ?cms"
      using fp filter_audio_chunk_messages[of "k - 1" env rid ys 0 0]
      by (cases k) (simp_all add: n start_message_fields)
    moreover have "filter (has_type ''synthesis_complete'') ?new = []"
      using cp filter_complete_chunk_messages[of "k - 1" env rid ys 0 0]
      by (cases k) (simp_all add: n start_message_fields)
    then have "\<forall>m\<in>set ?new. \<not> has_type ''synthesis_complete'' m"
      by (simp add: filter_empty_conv)
    ultimately show ?thesis by blast
  qed
qed

lemma ws_send_ok:
  "\<forall>n. send_result env n = None \<Longrightarrow>
     ws_send env m w = (Inr (), w\<lparr>sent := sent w @ [m], attempts := Suc (attempts w)\<rparr>)"
  by (simp add: ws_send_def)

lemma stream_chunks_ok:
  "\<forall>n. send_result env n = None \<Longrightarrow> \<exists>p w'. stream_chunks env rid ys i t w = (Inr p, w')"
  by (induction ys arbitrary: i t w) (auto simp: ws_send_ok Let_def)

lemma stream_body_ok:
  assumes "\<forall>n. send_result env n = None"
  shows "\<exists>w'. stream_body env text rid w = (Inr (), w')"
proof -
  obtain t w1 where a: "loop_time env w = (t, w1)" by (cases "loop_time env w")
  obtain tmp ys w3 where c:
    "tts_begin env text CHUNK_SIZE (w1\<lparr>sent := sent w1 @ [start_message rid text t], attempts := Suc (attempts w1)\<rparr>) = (tmp, ys, w3)"
    using prod_cases3 by blast
  from stream_chunks_ok[OF assms] obtain p w4 where d: "stream_chunks env rid ys 0 0 w3 = (Inr p, w4)"
    by blast
  obtain i' t' where p: "p = (i', t')" by (cases p)
  obtain tt w5 where e: "loop_time env (tts_finally env tmp w4) = (tt, w5)"
    by (cases "loop_time env (tts_finally env tmp w4)")
  show ?thesis
    using a c d p e by (simp add: stream_body_def ws_send_ok[OF assms])
qed

text \<open>
  Claim C1. In the messages one call of \<open>synthesize_and_stream\<close> delivers, a
  \<open>synthesis_complete\<close> message carries the request id, in \<open>total_chunks\<close> the number of
  \<open>audio_chunk\<close> messages delivered by that call, and in \<open>total_size\<close> the sum of their
  \<open>chunk_size\<close> fields; every such chunk carries the request id and an integer
  \<open>chunk_size\<close>. When every send is delivered the call does deliver a
  \<open>synthesis_complete\<close> message.
\<close>

theorem synthesis_complete_totals:
  assumes "synthesize_and_stream env text request_id w = (r, w')"
    and "chunks = filter (has_type ''audio_chunk'') (new_messages w w')"
  shows "(\<forall>m\<in>set (new_messages w w'). has_type ''synthesis_complete'' m \<longrightarrow>
            msg_get m ''request_id'' = Some request_id \<and>
            msg_get m ''total_chunks'' = Some (JInt (int (length chunks))) \<and>
            msg_get m ''total_size'' = Some (JInt (sum_list (map (int_field ''chunk_size'') chunks)))) \<and>
         (\<forall>c\<in>set chunks. msg_get c ''request_id'' = Some request_id \<and>
            msg_get c ''chunk_size'' = Some (JInt (int_field ''chunk_size'' c))) \<and>
         ((\<forall>n. send_result env n = None) \<longrightarrow>
            (\<exists>m\<in>set (new_messages w w'). has_type ''synthesis_complete'' m))"
proof (intro conjI ballI impI)
  from stream_summary[OF assms(1)] obtain ys j where
    f: "chunks = take j (chunk_messages env request_id ys 0 0)" and
    c: "\<forall>m\<in>set (new_messages w w'). has_type ''synthesis_complete'' m \<longrightarrow>
             length (chunk_messages env request_id ys 0 0) \<le> j \<and>
             (\<exists>t'. m = end_message request_id (int (length (chunk_messages env request_id ys 0 0)))
                         (int (length (concat ys))) t')"
    unfolding assms(2) by blast
  {
    fix m assume m: "m \<in> set (new_messages w w')" "has_type ''synthesis_complete'' m"
    with c obtain t' where j: "length (chunk_messages env request_id ys 0 0) \<le> j" and
      e: "m = end_message request_id (int (length (chunk_messages env request_id ys 0 0)))
                         (int (length (concat ys))) t'" by blast
    from j f have all: "chunks = chunk_messages env request_id ys 0 0" by simp
    show "msg_get m ''request_id'' = Some request_id" by (simp add: e end_message_fields)
    show "msg_get m ''total_chunks'' = Some (JInt (int (length chunks)))"
      by (simp add: e all end_message_fields)
    show "msg_get m ''total_size'' = Some (JInt (sum_list (map (int_field ''chunk_size'') chunks)))"
      by (simp add: e all end_message_fields chunk_messages_sizes)
  }
  {
    fix c assume "c \<in> set chunks"
    with f have "c \<in> set (chunk_messages env request_id ys 0 0)" by (auto dest: in_set_takeD)
    then have "\<exists>i b t. c = chunk_message env request_id i b t"
      by (rule chunk_messages_form)
    then show "msg_get c ''request_id'' = Some request_id"
      and "msg_get c ''chunk_size'' = Some (JInt (int_field ''chunk_size'' c))"
      by (auto simp: chunk_message_fields int_field_def)
  }
  {
    assume ok: "\<forall>n. send_result env n = None"
    from stream_body_ok[OF ok] obtain w1 where b: "stream_body env text request_id w = (Inr (), w1)"
      by blast
    with assms(1) have "w' = w1" by (simp add: synthesize_and_stream_def)
    with b stream_body_Inr obtain t t' ys where
      "sent w' = sent w @ start_message request_id text t # chunk_messages env request_id ys 0 0 @
            [end_message request_id (int (length (chunk_messages env request_id ys 0 0))) (int (length (concat ys))) t']"
      by blast
    then have "end_message request_id (int (length (chunk_messages env request_id ys 0 0))) (int (length (concat ys))) t'
        \<in> set (new_messages w w')"
      by (simp add: new_messages_def)
    then show "\<exists>m\<in>set (new_messages w w'). has_type ''synthesis_complete'' m"
      using end_message_fields(1) by blast
  }
qed


text \<open>
  Claim C3. The \<open>audio_chunk\<close> messages one call of \<open>synthesize_and_stream\<close> delivers are
  numbered 1, 2, ..., N in the order sent, whether or not the stream is cut short, and
  the \<open>total_size\<close> of the j-th is the number of bytes of the payloads of the first j
  chunks, each payload being what \<open>audio_data\<close> encodes and \<open>chunk_size\<close> measures.
\<close>

theorem audio_chunk_sequence:
  assumes "synthesize_and_stream env text request_id w = (r, w')"
    and "chunks = filter (has_type ''audio_chunk'') (new_messages w w')"
  shows "\<exists>payloads. length payloads = length chunks \<and>
          (\<forall>j<length chunks.
             msg_get (chunks ! j) ''request_id'' = Some request_id \<and>
             msg_get (chunks ! j) ''chunk_index'' = Some (JInt (int j + 1)) \<and>
             msg_get (chunks ! j) ''audio_data'' = Some (JStr (b64encode env (payloads ! j))) \<and>
             msg_get (chunks ! j) ''chunk_size'' = Some (JInt (int (length (payloads ! j)))) \<and>
             msg_get (chunks ! j) ''total_size'' =
               Some (JInt (int (length (concat (take (Suc j) payloads))))))"
proof -
  from stream_summary[OF assms(1)] obtain ys k where
    f: "chunks = take k (chunk_messages env request_id ys 0 0)"
    unfolding assms(2) by blast
  let ?ps = "filter (\<lambda>c. c \<noteq> []) ys"
  have len: "length (take k ?ps) = length chunks"
    by (simp add: f chunk_messages_length)
  have "\<forall>j<length chunks.
          chunks ! j = chunk_message env request_id (int j + 1) (take k ?ps ! j)
             (int (length (concat (take (Suc j) (take k ?ps)))))"
  proof (intro allI impI)
    fix j assume j: "j < length chunks"
    with f have jk: "j < k" and jl: "j < length ?ps" by (simp_all add: chunk_messages_length)
    from jk have "take (Suc j) (take k ?ps) = take (Suc j) ?ps" by (simp add: min_def)
    with jk jl chunk_messages_nth[OF jl, of env request_id 0 0] f
    show "chunks ! j = chunk_message env request_id (int j + 1) (take k ?ps ! j)
             (int (length (concat (take (Suc j) (take k ?ps)))))"
      by (simp add: add.commute)
  qed
  then have "\<forall>j<length chunks.
             msg_get (chunks ! j) ''request_id'' = Some request_id \<and>
             msg_get (chunks ! j) ''chunk_index'' = Some (JInt (int j + 1)) \<and>
             msg_get (chunks ! j) ''audio_data'' = Some (JStr (b64encode env (take k ?ps ! j))) \<and>
             msg_get (chunks ! j) ''chunk_size'' = Some (JInt (int (length (take k ?ps ! j)))) \<and>
             msg_get (chunks ! j) ''total_size'' =
               Some (JInt (int (length (concat (take (Suc j) (take k ?ps))))))"
    by (simp add: chunk_message_fields)
  with len show ?thesis by blast
qed

subsection \<open>The streamer on the concrete environment\<close>

lemma env0_fields:
  "send_result env0 n = None"
  "loop_clock env0 n = of_nat n"
  "mktemp env0 n = Inr [str ''/tmp/tmp'' @ [48 + n]]"
  "engine env0 n text = (None, Some (replicate 4097 1))"
  "read_error env0 name i = None"
  "unlink_error env0 name = None"
  by (simp_all add: env0_def)

lemma w0_fields:
  "sent w0 = []" "attempts w0 = 0" "ticks w0 = 0" "uuids w0 = 0" "runs w0 = 0" "fs w0 = (\<lambda>name. None)"
  "synthesize_runs w0 = []"
  by (simp_all add: w0_def)

lemmas eval_defs = synthesize_and_stream_def stream_body_def loop_time_def ws_send_def tts_begin_def
  tts_finally_def read_file_def read_loop.simps strip_def py_isspace_def CHUNK_SIZE_def Let_def

lemma demo_stream:
  "sent (snd (synthesize_and_stream env0 (str ''hi'') (JStr (str ''r1'')) w0)) =
     [start_message (JStr (str ''r1'')) (str ''hi'') 0,
      chunk_message env0 (JStr (str ''r1'')) 1 (replicate 4096 1) 4096,
      chunk_message env0 (JStr (str ''r1'')) 2 [1] 4097,
      end_message (JStr (str ''r1'')) 2 4097 1]"
  by (simp add: eval_defs env0_fields w0_fields str_def)

theorem synthesis_complete_totals_witness:
  "(\<exists>m\<in>set (new_messages w0 (snd (synthesize_and_stream env0 (str ''hi'') (JStr (str ''r1'')) w0))).
      has_type ''synthesis_complete'' m \<and>
      msg_get m ''total_chunks'' = Some (JInt 2) \<and> msg_get m ''total_size'' = Some (JInt 4097)) \<and>
   length (filter (has_type ''audio_chunk'')
      (new_messages w0 (snd (synthesize_and_stream env0 (str ''hi'') (JStr (str ''r1'')) w0)))) = 2"
proof -
  let ?w' = "snd (synthesize_and_stream env0 (str ''hi'') (JStr (str ''r1'')) w0)"
  let ?m = "end_message (JStr (str ''r1'')) 2 4097 1"
  have new: "new_messages w0 ?w' =
     [start_message (JStr (str ''r1'')) (str ''hi'') 0,
      chunk_message env0 (JStr (str ''r1'')) 1 (replicate 4096 1) 4096,
      chunk_message env0 (JStr (str ''r1'')) 2 [1] 4097, ?m]"
    by (simp add: new_messages_def demo_stream w0_fields)
  have chunks: "filter (has_type ''audio_chunk'') (new_messages w0 ?w') =
     [chunk_message env0 (JStr (str ''r1'')) 1 (replicate 4096 1) 4096,
      chunk_message env0 (JStr (str ''r1'')) 2 [1] 4097]"
    by (simp add: new start_message_fields chunk_message_fields end_message_fields)
  have run: "synthesize_and_stream env0 (str ''hi'') (JStr (str ''r1'')) w0 =
      (fst (synthesize_and_stream env0 (str ''hi'') (JStr (str ''r1'')) w0), ?w')"
    by simp
  have "?m \<in> set (new_messages w0 ?w')" and "has_type ''synthesis_complete'' ?m"
    by (simp_all add: new end_message_fields)
  with synthesis_complete_totals[OF run refl]
  have "msg_get ?m ''total_chunks'' =
          Some (JInt (int (length (filter (has_type ''audio_chunk'') (new_messages w0 ?w'))))) \<and>
        msg_get ?m ''total_size'' =
          Some (JInt (sum_list (map (int_field ''chunk_size'')
             (filter (has_type ''audio_chunk'') (new_messages w0 ?w')))))"
    by blast
  then have "msg_get ?m ''total_chunks'' = Some (JInt 2) \<and> msg_get ?m ''total_size'' = Some (JInt 4097)"
    by (simp add: chunks int_field_def chunk_message_fields)
  with \<open>?m \<in> set (new_messages w0 ?w')\<close> \<open>has_type ''synthesis_complete'' ?m\<close> chunks
  show ?thesis by auto
qed

theorem audio_chunk_sequence_witness:
  "map (\<lambda>c. msg_get c ''chunk_index'')
     (filter (has_type ''audio_chunk'')
        (new_messages w0 (snd (synthesize_and_stream env0 (str ''hi'') (JStr (str ''r1'')) w0)))) =
     [Some (JInt 1), Some (JInt 2)] \<and>
   map (\<lambda>c. (msg_get c ''chunk_size'', msg_get c ''total_size''))
     (filter (has_type ''audio_chunk'')
        (new_messages w0 (snd (synthesize_and_stream env0 (str ''hi'') (JStr (str ''r1'')) w0)))) =
     [(Some (JInt 4096), Some (JInt 4096)), (Some (JInt 1), Some (JInt 4097))]"
proof -
  let ?w' = "snd (synthesize_and_stream env0 (str ''hi'') (JStr (str ''r1'')) w0)"
  let ?chunks = "filter (has_type ''audio_chunk'') (new_messages w0 ?w')"
  have chunks: "?chunks =
     [chunk_message env0 (JStr (str ''r1'')) 1 (replicate 4096 1) 4096,
      chunk_message env0 (JStr (str ''r1'')) 2 [1] 4097]"
    by (simp add: new_messages_def demo_stream w0_fields start_message_fields chunk_message_fields
        end_message_fields)
  have run: "synthesize_and_stream env0 (str ''hi'') (JStr (str ''r1'')) w0 =
      (fst (synthesize_and_stream env0 (str ''hi'') (JStr (str ''r1'')) w0), ?w')"
    by simp
  from audio_chunk_sequence[OF run refl] obtain payloads where
    p: "\<forall>j<length ?chunks.
             msg_get (?chunks ! j) ''request_id'' = Some (JStr (str ''r1'')) \<and>
             msg_get (?chunks ! j) ''chunk_index'' = Some (JInt (int j + 1)) \<and>
             msg_get (?chunks ! j) ''audio_data'' = Some (JStr (b64encode env0 (payloads ! j))) \<and>
             msg_get (?chunks ! j) ''chunk_size'' = Some (JInt (int (length (payloads ! j)))) \<and>
             msg_get (?chunks ! j) ''total_size'' =
               Some (JInt (int (length (concat (take (Suc j) payloads)))))"
    by (elim exE conjE)
  have "0 < length ?chunks" and "1 < length ?chunks" by (simp_all add: chunks)
  with p have "msg_get (?chunks ! 0) ''chunk_index'' = Some (JInt (int 0 + 1))"
    and "msg_get (?chunks ! 1) ''chunk_index'' = Some (JInt (int 1 + 1))"
    by blast+
  then have "map (\<lambda>c. msg_get c ''chunk_index'') ?chunks = [Some (JInt 1), Some (JInt 2)]"
    by (simp add: chunks)
  moreover have "map (\<lambda>c. (msg_get c ''chunk_size'', msg_get c ''total_size'')) ?chunks =
     [(Some (JInt 4096), Some (JInt 4096)), (Some (JInt 1), Some (JInt 4097))]"
    by (simp add: chunks chunk_message_fields)
  ultimately show ?thesis by simp
qed

section \<open>The message handlers\<close>

lemma send_error_eq:
  "send_error env text rid w =
     (case send_result env (attempts w) of
        None \<Rightarrow> (Inr (), w\<lparr>sent := sent w @ [error_message rid text (loop_clock env (ticks w))],
                           attempts := Suc (attempts w), ticks := Suc (ticks w)\<rparr>)
      | Some e \<Rightarrow> (Inl e, w\<lparr>attempts := Suc (attempts w), ticks := Suc (ticks w)\<rparr>))"
  by (simp add: send_error_def loop_time_def ws_send_def split: option.splits)










lemma handle_messages_step:
  "handle_message env message w = (Inr (), w') \<Longrightarrow>
     handle_messages env (message # rest) w = handle_messages env rest w'"
  by simp



text \<open>
  Claim C5, amended. When \<open>json.loads\<close> raises on a message and the connection takes
  the send, the server delivers exactly one message, of type \<open>error\<close>. If the exception
  is a \<open>JSONDecodeError\<close> its \<open>request_id\<close> is the string \<open>invalid\<close> and its \<open>message\<close> the
  invalid-JSON text; for any other exception (the handler of lines 74-76) its
  \<open>request_id\<close> is the string \<open>error\<close> and its \<open>message\<close> is \<open>str(e)\<close>. In both cases
  \<open>_handle_message\<close> returns normally, the connection stays registered, and the message
  loop goes on with the messages that follow.
\<close>

theorem invalid_json_answered:
  assumes "json_loads env message = Inl e"
    and "send_result env (attempts w) = None"
  shows "\<exists>w' m. handle_message env message w = (Inr (), w') \<and>
           new_messages w w' = [m] \<and> has_type ''error'' m \<and>
           ((\<exists>x. e = JSONDecodeError x) \<longrightarrow>
              msg_get m ''request_id'' = Some (JStr (str ''invalid'')) \<and>
              msg_get m ''message'' = Some (JStr invalid_json_error)) \<and>
           ((\<forall>x. e \<noteq> JSONDecodeError x) \<longrightarrow>
              msg_get m ''request_id'' = Some (JStr (str ''error'')) \<and>
              msg_get m ''message'' = Some (JStr (exc_str e))) \<and>
           msg_get m ''timestamp'' = Some (JFloat (loop_clock env (ticks w))) \<and>
           handle_messages env (message # rest) w = handle_messages env rest w' \<and>
           active_connections w' = active_connections w \<and> uuids w' = uuids w \<and>
           runs w' = runs w \<and> fs w' = fs w"
  using assms
  by (cases e)
    (simp_all add: handle_message_def dispatch_message_def send_error_eq new_messages_def
      error_message_fields)


subsection \<open>The handlers on the concrete environment\<close>

lemma env0_handlers:
  "json_loads env0 = demo_loads"
  "uuid4 env0 n = str ''uuid-'' @ [48 + n]"
  by (simp_all add: env0_def)

lemma demo_loads_eval:
  "demo_loads bad_text = Inl (JSONDecodeError (str ''Expecting property name enclosed in double quotes''))"
  "demo_loads ping_text =
     Inr (JObj [(str ''type'', JStr (str ''ping'')), (str ''request_id'', JStr (str ''X''))])"
  "demo_loads shout_text =
     Inr (JObj [(str ''type'', JStr (str ''shout'')), (str ''request_id'', JStr (str ''r7''))])"
  "demo_loads blank_text =
     Inr (JObj [(str ''type'', JStr (str ''synthesize'')), (str ''request_id'', JStr (str ''r2'')),
                (str ''text'', JStr (str ''   ''))])"
  "demo_loads long_text =
     Inr (JObj [(str ''type'', JStr (str ''synthesize'')), (str ''request_id'', JStr (str ''r4'')),
                (str ''text'', JStr (replicate 10001 97))])"
  "demo_loads no_text =
     Inr (JObj [(str ''type'', JStr (str ''synthesize'')), (str ''request_id'', JStr (str ''r3''))])"
  "demo_loads hi_text =
     Inr (JObj [(str ''type'', JStr (str ''synthesize'')), (str ''request_id'', JStr (str ''r1'')),
                (str ''text'', JStr (str ''hi''))])"
  by (simp_all add: demo_loads_def bad_text_def ping_text_def shout_text_def blank_text_def
      long_text_def no_text_def hi_text_def str_def)


lemmas handler_eval = handle_message_def dispatch_message_def handle_synthesis_request_def
  send_error_eq send_pong_def send_voice_info_def loop_time_def ws_send_def dict_get_def Let_def
  format_value_def


lemma env_deep_fields:
  "json_loads env_deep deep_text =
     Inl (RecursionError (str ''maximum recursion depth exceeded while decoding a JSON array from a unicode string''))"
  "send_result env_deep n = None"
  "loop_clock env_deep n = of_nat n"
  by (simp_all add: env_deep_def env0_def)





text \<open>
  Claim C5 as stated fails for 100000 opening brackets: \<open>json.loads\<close> raises
  \<open>RecursionError\<close>, which is not a \<open>JSONDecodeError\<close>, so the handler of lines 74-76
  answers with the request id \<open>error\<close>.
\<close>

theorem deep_nesting_answered_as_error:
  "json_loads env_deep deep_text =
     Inl (RecursionError (str ''maximum recursion depth exceeded while decoding a JSON array from a unicode string'')) \<and>
   length (new_messages w0 (snd (handle_message env_deep deep_text w0))) = 1 \<and>
   has_type ''error'' (hd (new_messages w0 (snd (handle_message env_deep deep_text w0)))) \<and>
   msg_get (hd (new_messages w0 (snd (handle_message env_deep deep_text w0)))) ''request_id'' =
     Some (JStr (str ''error''))"
proof -
  have "new_messages w0 (snd (handle_message env_deep deep_text w0)) =
      [error_message (JStr (str ''error''))
         (str ''maximum recursion depth exceeded while decoding a JSON array from a unicode string'') 0]"
    by (simp add: handler_eval env_deep_fields w0_fields new_messages_def)
  then show ?thesis by (simp add: error_message_fields env_deep_fields)
qed

theorem invalid_json_answered_witness:
  "length (new_messages w0 (snd (handle_message env0 bad_text w0))) = 1 \<and>
   has_type ''error'' (hd (new_messages w0 (snd (handle_message env0 bad_text w0)))) \<and>
   msg_get (hd (new_messages w0 (snd (handle_message env0 bad_text w0)))) ''request_id'' =
     Some (JStr (str ''invalid'')) \<and>
   map (\<lambda>m. msg_get m ''type'') (sent (snd (handle_messages env0 [bad_text, ping_text] w0))) =
     [Some (JStr (str ''error'')), Some (JStr (str ''pong''))] \<and>
   msg_get (hd (new_messages w0 (snd (handle_message env_deep deep_text w0)))) ''message'' =
     Some (JStr (str ''maximum recursion depth exceeded while decoding a JSON array from a unicode string''))"
proof -
  have ok: "send_result env0 (attempts w0) = None" by (simp add: env0_fields)
  have l: "json_loads env0 bad_text =
      Inl (JSONDecodeError (str ''Expecting property name enclosed in double quotes''))"
    by (simp add: env0_handlers demo_loads_eval)
  from invalid_json_answered[OF l ok, of "[ping_text]"] obtain w' m where
    h: "handle_message env0 bad_text w0 = (Inr (), w')" and
    n: "new_messages w0 w' = [m]" "has_type ''error'' m"
       "msg_get m ''request_id'' = Some (JStr (str ''invalid''))" and
    k: "handle_messages env0 (bad_text # [ping_text]) w0 = handle_messages env0 [ping_text] w'"
    by auto
  from h have w': "w' = snd (handle_message env0 bad_text w0)" by simp
  have "sent (snd (handle_messages env0 [ping_text] (snd (handle_message env0 bad_text w0)))) =
     [error_message (JStr (str ''invalid'')) invalid_json_error 0, pong_message (JStr (str ''X'')) 1]"
    by (simp add: handler_eval env0_handlers demo_loads_eval env0_fields w0_fields str_def)
  then have p: "map (\<lambda>m. msg_get m ''type'')
       (sent (snd (handle_messages env0 [ping_text] (snd (handle_message env0 bad_text w0))))) =
     [Some (JStr (str ''error'')), Some (JStr (str ''pong''))]"
    by (simp add: msg_get_def error_message_def pong_message_def)
  have okd: "send_result env_deep (attempts w0) = None" by (simp add: env_deep_fields)
  from invalid_json_answered[OF env_deep_fields(1) okd, of "[]"] obtain wd md where
    "handle_message env_deep deep_text w0 = (Inr (), wd)" "new_messages w0 wd = [md]"
    "msg_get md ''message'' =
       Some (JStr (str ''maximum recursion depth exceeded while decoding a JSON array from a unicode string''))"
    by auto
  then have "msg_get (hd (new_messages w0 (snd (handle_message env_deep deep_text w0)))) ''message'' =
     Some (JStr (str ''maximum recursion depth exceeded while decoding a JSON array from a unicode string''))"
    by simp
  with n k w' p show ?thesis by simp
qed



section \<open>The temporary file\<close>

text \<open>
  Claim C8, amended. \<open>text_to_speech_stream\<close>, run until it is exhausted, leaves the
  file system as it found it whenever \<open>os.unlink\<close> succeeds, on the success path and on
  every failure path (no temporary file, engine failure, no output file, read failure).
  The only file that can differ afterwards is the temporary file the call created, and
  only when \<open>os.unlink\<close> raised for it; and when \<open>os.unlink\<close> raises for the file the
  engine left, that file stays with its content.
\<close>

lemma suffix_nonempty: "str ''.wav'' \<noteq> []"
  by (simp add: str_def)

theorem scratch_file_removed_if_unlink_succeeds:
  "((\<forall>name. unlink_error env name = None) \<longrightarrow>
      fs (snd (text_to_speech_stream env text chunk_size w)) = fs w) \<and>
   (\<forall>name. fs (snd (text_to_speech_stream env text chunk_size w)) name \<noteq> fs w name \<longrightarrow>
      (\<exists>cs c. mktemp env (runs w) = Inr cs \<and> c \<in> set cs \<and> name = c @ str ''.wav'') \<and>
      fs w name = None \<and> unlink_error env name \<noteq> None) \<and>
   (\<forall>cs name audio.
      text \<noteq> [] \<and> strip text \<noteq> [] \<and> mktemp env (runs w) = Inr cs \<and>
      find (\<lambda>n. fs w n = None) (map (\<lambda>c. c @ str ''.wav'') cs) = Some name \<and>
      snd (engine env (runs w) text) = Some audio \<and> unlink_error env name \<noteq> None \<longrightarrow>
      fs (snd (text_to_speech_stream env text chunk_size w)) name = Some audio)"
proof (intro conjI allI impI)
  assume "\<forall>name. unlink_error env name = None"
  then show "fs (snd (text_to_speech_stream env text chunk_size w)) = fs w"
    by (auto simp: text_to_speech_stream_def tts_begin_def tts_finally_def Let_def fun_eq_iff
        find_Some_iff suffix_nonempty split: if_splits sum.splits option.splits prod.splits)
next
  fix name
  assume "fs (snd (text_to_speech_stream env text chunk_size w)) name \<noteq> fs w name"
  then show "\<exists>cs c. mktemp env (runs w) = Inr cs \<and> c \<in> set cs \<and> name = c @ str ''.wav''"
    and "fs w name = None" and "unlink_error env name \<noteq> None"
    by (auto simp: text_to_speech_stream_def tts_begin_def tts_finally_def Let_def
        find_Some_iff suffix_nonempty split: if_splits sum.splits option.splits prod.splits)
next
  fix cs name audio
  assume "text \<noteq> [] \<and> strip text \<noteq> [] \<and> mktemp env (runs w) = Inr cs \<and>
      find (\<lambda>n. fs w n = None) (map (\<lambda>c. c @ str ''.wav'') cs) = Some name \<and>
      snd (engine env (runs w) text) = Some audio \<and> unlink_error env name \<noteq> None"
  then have a: "text \<noteq> []" "strip text \<noteq> []" "mktemp env (runs w) = Inr cs"
    "find (\<lambda>n. fs w n = None) (map (\<lambda>c. c @ str ''.wav'') cs) = Some name"
    "snd (engine env (runs w) text) = Some audio" "unlink_error env name \<noteq> None"
    by simp_all
  from a(4) have "name \<in> set (map (\<lambda>c. c @ str ''.wav'') cs)"
    by (auto simp: find_Some_iff)
  then have "name \<noteq> []" by (auto simp: suffix_nonempty)
  with a show "fs (snd (text_to_speech_stream env text chunk_size w)) name = Some audio"
    by (auto simp: text_to_speech_stream_def tts_begin_def tts_finally_def Let_def
        split: prod.splits)
qed

lemma env_unlink_fails_fields:
  "mktemp env_unlink_fails n = Inr [str ''/tmp/tmp'' @ [48 + n]]"
  "engine env_unlink_fails n text = (None, Some (replicate 4097 1))"
  "read_error env_unlink_fails name i = None"
  "unlink_error env_unlink_fails name = Some (OSError (str ''[WinError 32] The process cannot access the file''))"
  by (simp_all add: env_unlink_fails_def env0_def)

text \<open>
  Claim C8 as stated fails: when \<open>os.unlink\<close> raises, lines 113-114 log a warning and the
  temporary file stays.
\<close>

theorem scratch_file_left_behind:
  "fs w0 (str ''/tmp/tmp0.wav'') = None \<and>
   fs (snd (text_to_speech_stream env_unlink_fails (str ''hi'') CHUNK_SIZE w0)) (str ''/tmp/tmp0.wav'') =
     Some (replicate 4097 1)"
  by (simp add: text_to_speech_stream_def tts_begin_def tts_finally_def read_file_def read_loop.simps
      strip_def py_isspace_def CHUNK_SIZE_def Let_def env_unlink_fails_fields w0_fields str_def)

theorem scratch_file_removed_if_unlink_succeeds_witness:
  "mktemp env0 (runs w0) = Inr [str ''/tmp/tmp0''] \<and>
   fst (text_to_speech_stream env0 (str ''hi'') CHUNK_SIZE w0) = [replicate 4096 1, [1]] \<and>
   synthesize_runs (snd (text_to_speech_stream env0 (str ''hi'') CHUNK_SIZE w0)) =
     [(str ''hi'', str ''/tmp/tmp0.wav'')] \<and>
   fs (snd (text_to_speech_stream env0 (str ''hi'') CHUNK_SIZE w0)) = fs w0 \<and>
   fs (snd (text_to_speech_stream env_unlink_fails (str ''hi'') CHUNK_SIZE w0)) (str ''/tmp/tmp0.wav'') \<noteq>
     fs w0 (str ''/tmp/tmp0.wav'') \<and>
   unlink_error env_unlink_fails (str ''/tmp/tmp0.wav'') \<noteq> None"
proof -
  have m: "mktemp env0 (runs w0) = Inr [str ''/tmp/tmp0'']"
    by (simp add: env0_fields w0_fields str_def)
  have u: "\<forall>name. unlink_error env0 name = None" by (simp add: env0_fields)
  from scratch_file_removed_if_unlink_succeeds[of env0 "str ''hi''" CHUNK_SIZE w0] u
  have "fs (snd (text_to_speech_stream env0 (str ''hi'') CHUNK_SIZE w0)) = fs w0" by blast
  moreover have "fst (text_to_speech_stream env0 (str ''hi'') CHUNK_SIZE w0) = [replicate 4096 1, [1]]"
    and "synthesize_runs (snd (text_to_speech_stream env0 (str ''hi'') CHUNK_SIZE w0)) =
     [(str ''hi'', str ''/tmp/tmp0.wav'')]"
    by (simp_all add: text_to_speech_stream_def tts_begin_def tts_finally_def read_file_def
      read_loop.simps strip_def py_isspace_def CHUNK_SIZE_def Let_def env0_fields w0_fields str_def)
  moreover have d: "fs (snd (text_to_speech_stream env_unlink_fails (str ''hi'') CHUNK_SIZE w0))
      (str ''/tmp/tmp0.wav'') \<noteq> fs w0 (str ''/tmp/tmp0.wav'')"
    by (simp add: text_to_speech_stream_def tts_begin_def tts_finally_def read_file_def
      read_loop.simps strip_def py_isspace_def CHUNK_SIZE_def Let_def env_unlink_fails_fields
      w0_fields str_def)
  moreover from scratch_file_removed_if_unlink_succeeds[of env_unlink_fails "str ''hi''" CHUNK_SIZE w0] d
  have "unlink_error env_unlink_fails (str ''/tmp/tmp0.wav'') \<noteq> None" by blast
  ultimately show ?thesis using m by simp
qed

section \<open>Failures while streaming\<close>

lemma loop_time_attempts: "loop_time env w = (t, w') \<Longrightarrow> attempts w' = attempts w"
  by (auto simp: loop_time_def)

lemma tts_begin_attempts: "tts_begin env text n w = (tmp, ys, w') \<Longrightarrow> attempts w' = attempts w"
  by (auto simp: tts_begin_def Let_def split: if_splits sum.splits option.splits prod.splits)

lemma tts_finally_attempts: "attempts (tts_finally env tmp w) = attempts w"
  by (auto simp: tts_finally_def split: option.splits)

lemma ws_send_attempts: "ws_send env m w = (r, w') \<Longrightarrow> attempts w' = Suc (attempts w)"
  by (auto simp: ws_send_def split: option.splits)

lemma sends_ok_refl: "attempts w' = attempts w \<Longrightarrow> sends_ok env w w'"
  by (auto simp: sends_ok_def)

lemma sends_ok_trans:
  "sends_ok env w w1 \<Longrightarrow> sends_ok env w1 w2 \<Longrightarrow> sends_ok env w w2"
  unfolding sends_ok_def by (metis not_le_imp_less)

lemma ws_send_Inr_ok: "ws_send env m w = (Inr u, w') \<Longrightarrow> sends_ok env w w'"
  by (auto simp: ws_send_def sends_ok_def less_Suc_eq_le split: option.splits)

lemma ws_send_Inl_not_ok: "ws_send env m w = (Inl e, w') \<Longrightarrow> \<not> sends_ok env w w'"
  by (auto simp: ws_send_def sends_ok_def split: option.splits)

lemma sends_ok_suffix:
  "sends_ok env w w2 \<Longrightarrow> attempts w \<le> attempts w1 \<Longrightarrow> sends_ok env w1 w2"
  unfolding sends_ok_def using le_trans by blast

lemma stream_chunks_attempts:
  "stream_chunks env rid ys i t w = (r, w') \<Longrightarrow>
     attempts w \<le> attempts w' \<and> (case r of Inr p \<Rightarrow> sends_ok env w w' | Inl e \<Rightarrow> \<not> sends_ok env w w')"
proof (induction ys arbitrary: i t w)
  case Nil
  then show ?case by (auto simp: sends_ok_refl)
next
  case (Cons c cs)
  show ?case
  proof (cases "c = []")
    case True
    with Cons show ?thesis by simp
  next
    case False
    let ?m = "chunk_message env rid (i + 1) c (t + int (length c))"
    obtain r1 w1 where s: "ws_send env ?m w = (r1, w1)" by (cases "ws_send env ?m w")
    note a1 = ws_send_attempts[OF s]
    show ?thesis
    proof (cases r1)
      case (Inl e1)
      with s Cons.prems False have "w' = w1" "r = Inl e1" by (simp_all add: Let_def)
      with s Inl a1 ws_send_Inl_not_ok show ?thesis by fastforce
    next
      case (Inr u)
      with s Cons.prems False have
        rr: "stream_chunks env rid cs (i + 1) (t + int (length c)) w1 = (r, w')"
        by (simp add: Let_def)
      from s Inr have ok1: "sends_ok env w w1" by (auto dest: ws_send_Inr_ok)
      from Cons.IH[OF rr] have le: "attempts w1 \<le> attempts w'"
        and c: "case r of Inr p \<Rightarrow> sends_ok env w1 w' | Inl e \<Rightarrow> \<not> sends_ok env w1 w'" by simp_all
      show ?thesis
      proof (cases r)
        case (Inl e)
        with c have "\<not> sends_ok env w1 w'" by simp
        moreover have "attempts w \<le> attempts w1" using a1 by simp
        ultimately have "\<not> sends_ok env w w'" using sends_ok_suffix by blast
        with Inl le a1 show ?thesis by simp
      next
        case (Inr p)
        with c ok1 have "sends_ok env w w'" by (auto intro: sends_ok_trans)
        with Inr le a1 show ?thesis by simp
      qed
    qed
  qed
qed

lemma stream_body_attempts:
  assumes "stream_body env text rid w = (r, w')"
  shows "attempts w \<le> attempts w' \<and>
         (case r of Inr u \<Rightarrow> sends_ok env w w' | Inl e \<Rightarrow> \<not> sends_ok env w w')"
proof -
  obtain t w1 where a: "loop_time env w = (t, w1)" by (cases "loop_time env w")
  note a1 = loop_time_attempts[OF a]
  obtain r2 w2 where b: "ws_send env (start_message rid text t) w1 = (r2, w2)"
    by (cases "ws_send env (start_message rid text t) w1")
  note a2 = ws_send_attempts[OF b]
  show ?thesis
  proof (cases r2)
    case (Inl e2)
    with assms a b have "w' = w2" "r = Inl e2" by (simp_all add: stream_body_def)
    moreover from b Inl have "\<not> sends_ok env w1 w2" by (auto dest: ws_send_Inl_not_ok)
    then have "\<not> sends_ok env w w2" using a1 by (simp add: sends_ok_def)
    ultimately show ?thesis using a1 a2 by simp
  next
    case (Inr u2)
    with b have "sends_ok env w1 w2" by (auto dest: ws_send_Inr_ok)
    then have ok2: "sends_ok env w w2" using a1 by (simp add: sends_ok_def)
    obtain tmp ys w3 where c: "tts_begin env text CHUNK_SIZE w2 = (tmp, ys, w3)"
      by (cases "tts_begin env text CHUNK_SIZE w2")
    note a3 = tts_begin_attempts[OF c]
    from ok2 a3 have ok3: "sends_ok env w w3" by (simp add: sends_ok_def)
    obtain r4 w4 where d: "stream_chunks env rid ys 0 0 w3 = (r4, w4)"
      by (cases "stream_chunks env rid ys 0 0 w3")
    from stream_chunks_attempts[OF d] have a4: "attempts w3 \<le> attempts w4"
      and c4: "case r4 of Inr p \<Rightarrow> sends_ok env w3 w4 | Inl e \<Rightarrow> \<not> sends_ok env w3 w4" by simp_all
    show ?thesis
    proof (cases r4)
      case (Inl e4)
      with assms a b Inr c d have "w' = w4" "r = Inl e4" by (simp_all add: stream_body_def)
      from c4 Inl have "\<not> sends_ok env w3 w4" by simp
      moreover have "attempts w \<le> attempts w3" using a1 a2 a3 by simp
      ultimately have "\<not> sends_ok env w w4" using sends_ok_suffix by blast
      with \<open>w' = w4\<close> \<open>r = Inl e4\<close> show ?thesis using a1 a2 a3 a4 by simp
    next
      case (Inr p)
      obtain i' t' where p: "p = (i', t')" by (cases p)
      from c4 Inr ok3 have ok4: "sends_ok env w w4" by (auto intro: sends_ok_trans)
      obtain tt w5 where e5: "loop_time env (tts_finally env tmp w4) = (tt, w5)"
        by (cases "loop_time env (tts_finally env tmp w4)")
      from loop_time_attempts[OF e5] have a5: "attempts w5 = attempts w4"
        by (simp add: tts_finally_attempts)
      with ok4 have ok5: "sends_ok env w w5" by (simp add: sends_ok_def)
      from assms a b \<open>r2 = Inr u2\<close> c d Inr p e5
      have f: "ws_send env (end_message rid i' t' tt) w5 = (r, w')"
        by (simp add: stream_body_def)
      note a6 = ws_send_attempts[OF f]
      show ?thesis
      proof (cases r)
        case (Inl e)
        with f have "\<not> sends_ok env w5 w'" by (auto dest: ws_send_Inl_not_ok)
        moreover have "attempts w \<le> attempts w5" using a1 a2 a3 a4 a5 by simp
        ultimately have "\<not> sends_ok env w w'" using sends_ok_suffix by blast
        with Inl a1 a2 a3 a4 a5 a6 show ?thesis by simp
      next
        case (Inr u)
        with f have "sends_ok env w5 w'" by (auto dest: ws_send_Inr_ok)
        with ok5 have "sends_ok env w w'" by (rule sends_ok_trans)
        with Inr a1 a2 a3 a4 a5 a6 show ?thesis by simp
      qed
    qed
  qed
qed


lemma sends_ok_prefix:
  "sends_ok env w w2 \<Longrightarrow> attempts w1 \<le> attempts w2 \<Longrightarrow> sends_ok env w w1"
  unfolding sends_ok_def using less_le_trans by blast

lemma synthesize_and_stream_result:
  assumes "synthesize_and_stream env text rid w = (r, w')"
  shows "(sends_ok env w w' \<and> r = Inr () \<and>
          (\<exists>t ys t'. new_messages w w' = start_message rid text t # chunk_messages env rid ys 0 0 @
            [end_message rid (int (length (chunk_messages env rid ys 0 0))) (int (length (concat ys))) t']))
       \<or> (\<not> sends_ok env w w' \<and>
          (\<exists>t ys k.
             (r = Inr () \<and> (\<exists>msg tt. new_messages w w' =
                 take k (start_message rid text t # chunk_messages env rid ys 0 0) @
                   [error_message rid msg tt])) \<or>
             ((\<exists>e. r = Inl e) \<and>
                new_messages w w' = take k (start_message rid text t # chunk_messages env rid ys 0 0))))"
proof -
  obtain r1 w1 where a: "stream_body env text rid w = (r1, w1)" by (cases "stream_body env text rid w")
  from stream_body_attempts[OF a] have le1: "attempts w \<le> attempts w1"
    and c1: "case r1 of Inr u \<Rightarrow> sends_ok env w w1 | Inl e \<Rightarrow> \<not> sends_ok env w w1" by simp_all
  show ?thesis
  proof (cases r1)
    case (Inr u)
    with a assms have w: "w' = w1" "r = Inr ()" by (simp_all add: synthesize_and_stream_def)
    from c1 Inr have ok: "sends_ok env w w1" by simp
    from a Inr stream_body_Inr obtain t t' ys where "sent w1 =
        sent w @ start_message rid text t # chunk_messages env rid ys 0 0 @
            [end_message rid (int (length (chunk_messages env rid ys 0 0))) (int (length (concat ys))) t']"
      by blast
    then have "new_messages w w1 = start_message rid text t # chunk_messages env rid ys 0 0 @
            [end_message rid (int (length (chunk_messages env rid ys 0 0))) (int (length (concat ys))) t']"
      by (rule new_messages_append)
    with w ok show ?thesis by blast
  next
    case (Inl e)
    with a stream_body_Inl obtain t ys k where
      s1: "sent w1 = sent w @ take k (start_message rid text t # chunk_messages env rid ys 0 0)"
      by blast
    obtain tt w2 where b: "loop_time env w1 = (tt, w2)" by (cases "loop_time env w1")
    let ?m = "error_message rid (stream_failed_prefix @ exc_str e) tt"
    let ?pre = "take k (start_message rid text t # chunk_messages env rid ys 0 0)"
    from assms a Inl b have c: "ws_send env ?m w2 = (r, w')"
      by (simp add: synthesize_and_stream_def)
    have s2: "sent w2 = sent w1" using b by (rule loop_time_sent)
    have "attempts w1 \<le> attempts w'"
      using loop_time_attempts[OF b] ws_send_attempts[OF c] by simp
    moreover from c1 Inl have "\<not> sends_ok env w w1" by simp
    ultimately have nok: "\<not> sends_ok env w w'" using sends_ok_prefix by blast
    have "(r = Inr () \<and> sent w' = sent w2 @ [?m]) \<or> ((\<exists>e. r = Inl e) \<and> sent w' = sent w2)"
      using c by (auto simp: ws_send_def split: option.splits)
    then show ?thesis
    proof
      assume h: "r = Inr () \<and> sent w' = sent w2 @ [?m]"
      with s1 s2 have "sent w' = sent w @ (?pre @ [?m])" by simp
      then have "new_messages w w' = ?pre @ [?m]" by (rule new_messages_append)
      with h nok show ?thesis by blast
    next
      assume h: "(\<exists>e. r = Inl e) \<and> sent w' = sent w2"
      with s1 s2 have "sent w' = sent w @ ?pre" by simp
      then have "new_messages w w' = ?pre" by (rule new_messages_append)
      with h nok show ?thesis by blast
    qed
  qed
qed

lemma chunk_message_not_error: "\<not> has_type ''error'' (chunk_message env rid i c t)"
  by (simp add: has_type_def msg_get_def chunk_message_def str_def)

lemma prefix_no_error_no_complete:
  assumes "m \<in> set (take k (start_message rid text t # chunk_messages env rid ys 0 0))"
  shows "\<not> has_type ''error'' m \<and> \<not> has_type ''synthesis_complete'' m"
proof -
  from assms have "m = start_message rid text t \<or> m \<in> set (chunk_messages env rid ys 0 0)"
    by (auto dest: in_set_takeD)
  then show ?thesis
    by (auto simp: start_message_fields chunk_message_not_error chunk_message_fields
        dest: chunk_messages_form)
qed

lemma prefix_filters:
  "filter (has_type ''error'') (take k (start_message rid text t # chunk_messages env rid ys 0 0)) = []"
  "filter (has_type ''synthesis_complete'')
     (take k (start_message rid text t # chunk_messages env rid ys 0 0)) = []"
  using prefix_no_error_no_complete by (simp_all only: filter_empty_conv) blast+

text \<open>
  Claim C2, amended. Within one call of \<open>synthesize_and_stream\<close>: if some
  \<open>websocket.send\<close> of the call raised, no \<open>synthesis_complete\<close> is delivered, every
  \<open>error\<close> delivered carries the request id, and exactly one \<open>error\<close> is delivered when
  the send of the error message itself is taken (none when that send raises too, and
  then the exception leaves the function). If no send raised, whatever the engine and
  the file system did, the call returns normally having delivered one
  \<open>synthesis_complete\<close> and no \<open>error\<close>.
\<close>

theorem stream_failure_reporting:
  assumes "synthesize_and_stream env text request_id w = (r, w')"
  shows "((\<exists>n. attempts w \<le> n \<and> n < attempts w' \<and> send_result env n \<noteq> None) \<longrightarrow>
            filter (has_type ''synthesis_complete'') (new_messages w w') = [] \<and>
            (\<forall>m\<in>set (new_messages w w'). has_type ''error'' m \<longrightarrow>
               msg_get m ''request_id'' = Some request_id) \<and>
            length (filter (has_type ''error'') (new_messages w w')) = (if r = Inr () then 1 else 0)) \<and>
         ((\<forall>n. attempts w \<le> n \<and> n < attempts w' \<longrightarrow> send_result env n = None) \<longrightarrow>
            r = Inr () \<and>
            filter (has_type ''error'') (new_messages w w') = [] \<and>
            length (filter (has_type ''synthesis_complete'') (new_messages w w')) = 1)"
proof -
  let ?new = "new_messages w w'"
  from synthesize_and_stream_result[OF assms] show ?thesis
  proof (elim disjE conjE exE)
    fix t ys t'
    let ?pre = "start_message request_id text t # chunk_messages env request_id ys 0 0"
    assume ok: "sends_ok env w w'" and r: "r = Inr ()" and
      n: "?new = start_message request_id text t # chunk_messages env request_id ys 0 0 @
            [end_message request_id (int (length (chunk_messages env request_id ys 0 0))) (int (length (concat ys))) t']"
    have "filter (has_type ''error'') ?pre = []"
      using prefix_filters(1)[where k = "Suc (length (chunk_messages env request_id ys 0 0))"
          and rid = request_id and t = t and env = env and ys = ys]
      by simp
    moreover have "filter (has_type ''synthesis_complete'') ?pre = []"
      using prefix_filters(2)[where k = "Suc (length (chunk_messages env request_id ys 0 0))"
          and rid = request_id and t = t and env = env and ys = ys]
      by simp
    ultimately have "filter (has_type ''error'') ?new = []"
      and "length (filter (has_type ''synthesis_complete'') ?new) = 1"
      using n by (simp_all add: end_message_fields split: if_splits)
    with ok r show ?thesis by (auto simp: sends_ok_def)
  next
    fix t ys k msg tt
    let ?pre = "take k (start_message request_id text t # chunk_messages env request_id ys 0 0)"
    assume nok: "\<not> sends_ok env w w'" and r: "r = Inr ()"
      and n: "?new = ?pre @ [error_message request_id msg tt]"
    have pe: "filter (has_type ''error'') ?pre = []"
      and pc: "filter (has_type ''synthesis_complete'') ?pre = []"
      by (rule prefix_filters)+
    from pe have "\<forall>m\<in>set ?pre. \<not> has_type ''error'' m" by (simp add: filter_empty_conv)
    with n pe pc r have "filter (has_type ''synthesis_complete'') ?new = [] \<and>
            (\<forall>m\<in>set ?new. has_type ''error'' m \<longrightarrow> msg_get m ''request_id'' = Some request_id) \<and>
            length (filter (has_type ''error'') ?new) = (if r = Inr () then 1 else 0)"
      by (auto simp: error_message_fields)
    with nok show ?thesis by (auto simp: sends_ok_def)
  next
    fix t ys k e
    let ?pre = "take k (start_message request_id text t # chunk_messages env request_id ys 0 0)"
    assume nok: "\<not> sends_ok env w w'" and r: "r = Inl e" and n: "?new = ?pre"
    have pe: "filter (has_type ''error'') ?pre = []"
      and pc: "filter (has_type ''synthesis_complete'') ?pre = []"
      by (rule prefix_filters)+
    from pe have "\<forall>m\<in>set ?pre. \<not> has_type ''error'' m" by (simp add: filter_empty_conv)
    with n pe pc r have "filter (has_type ''synthesis_complete'') ?new = [] \<and>
            (\<forall>m\<in>set ?new. has_type ''error'' m \<longrightarrow> msg_get m ''request_id'' = Some request_id) \<and>
            length (filter (has_type ''error'') ?new) = (if r = Inr () then 1 else 0)"
      by auto
    with nok show ?thesis by (auto simp: sends_ok_def)
  qed
qed


lemma env_engine_fails_fields:
  "send_result env_engine_fails n = None"
  "loop_clock env_engine_fails n = of_nat n"
  "mktemp env_engine_fails n = Inr [str ''/tmp/tmp'' @ [48 + n]]"
  "engine env_engine_fails n text = (Some (OtherException (str ''run loop already started'')), Some [])"
  "read_error env_engine_fails name i = None"
  "unlink_error env_engine_fails name = None"
  by (simp_all add: env_engine_fails_def env0_def)

lemma env_send_fails_fields:
  "send_result env_send_fails n =
     (if n = 2 then Some (ConnectionClosed (str ''no close frame received or sent'')) else None)"
  "loop_clock env_send_fails n = of_nat n"
  "mktemp env_send_fails n = Inr [str ''/tmp/tmp'' @ [48 + n]]"
  "engine env_send_fails n text = (None, Some (replicate 4097 1))"
  "read_error env_send_fails name i = None"
  "unlink_error env_send_fails name = None"
  by (simp_all add: env_send_fails_def env0_def)

text \<open>
  Claim C2 as stated fails for an engine failure: \<open>synthesize\<close> swallows the exception,
  the empty file yields no chunk, and the request ends with \<open>synthesis_complete\<close>
  (0 chunks, 0 bytes) and no \<open>error\<close>.
\<close>

theorem engine_failure_reported_as_complete:
  "fst (engine env_engine_fails (runs w0) (str ''hi'')) =
     Some (OtherException (str ''run loop already started'')) \<and>
   new_messages w0 (snd (synthesize_and_stream env_engine_fails (str ''hi'') (JStr (str ''r1'')) w0)) =
     [start_message (JStr (str ''r1'')) (str ''hi'') 0, end_message (JStr (str ''r1'')) 0 0 1]"
  by (simp add: new_messages_def eval_defs env_engine_fails_fields w0_fields str_def)

lemma demo_send_fails:
  "synthesize_and_stream env_send_fails (str ''hi'') (JStr (str ''r1'')) w0 =
     (Inr (),
      w0\<lparr>sent := [start_message (JStr (str ''r1'')) (str ''hi'') 0,
                 chunk_message env_send_fails (JStr (str ''r1'')) 1 (replicate 4096 1) 4096,
                 error_message (JStr (str ''r1''))
                   (stream_failed_prefix @ str ''no close frame received or sent'') 1],
         attempts := 4, ticks := 2, runs := 1,
         fs := (fs w0)(str ''/tmp/tmp0.wav'' \<mapsto> replicate 4097 1),
         synthesize_runs := [(str ''hi'', str ''/tmp/tmp0.wav'')]\<rparr>)"
  by (simp add: eval_defs env_send_fails_fields w0_def str_def)

theorem stream_failure_reporting_witness:
  "(\<exists>n. attempts w0 \<le> n \<and>
        n < attempts (snd (synthesize_and_stream env_send_fails (str ''hi'') (JStr (str ''r1'')) w0)) \<and>
        send_result env_send_fails n \<noteq> None) \<and>
   filter (has_type ''synthesis_complete'')
     (new_messages w0 (snd (synthesize_and_stream env_send_fails (str ''hi'') (JStr (str ''r1'')) w0))) = [] \<and>
   filter (has_type ''error'')
     (new_messages w0 (snd (synthesize_and_stream env_send_fails (str ''hi'') (JStr (str ''r1'')) w0))) =
     [error_message (JStr (str ''r1'')) (stream_failed_prefix @ str ''no close frame received or sent'') 1] \<and>
   send_result env0 = (\<lambda>n. None) \<and>
   filter (has_type ''error'')
     (new_messages w0 (snd (synthesize_and_stream env0 (str ''hi'') (JStr (str ''r1'')) w0))) = []"
proof -
  let ?run = "synthesize_and_stream env_send_fails (str ''hi'') (JStr (str ''r1'')) w0"
  let ?other = "synthesize_and_stream env0 (str ''hi'') (JStr (str ''r1'')) w0"
  have f: "attempts w0 \<le> 2 \<and> 2 < attempts (snd ?run) \<and> send_result env_send_fails 2 \<noteq> None"
    by (simp add: demo_send_fails env_send_fails_fields w0_fields)
  then have ex: "\<exists>n. attempts w0 \<le> n \<and> n < attempts (snd ?run) \<and> send_result env_send_fails n \<noteq> None"
    by blast
  have run: "?run = (fst ?run, snd ?run)" by simp
  from stream_failure_reporting[OF run] ex
  have c: "filter (has_type ''synthesis_complete'') (new_messages w0 (snd ?run)) = []" by blast
  have e: "filter (has_type ''error'') (new_messages w0 (snd ?run)) =
     [error_message (JStr (str ''r1'')) (stream_failed_prefix @ str ''no close frame received or sent'') 1]"
    by (simp add: demo_send_fails new_messages_def w0_fields start_message_fields chunk_message_not_error
        error_message_fields)
  have ok0: "\<forall>n. attempts w0 \<le> n \<and> n < attempts (snd ?other) \<longrightarrow> send_result env0 n = None"
    by (simp add: env0_fields)
  have run0: "?other = (fst ?other, snd ?other)" by simp
  from stream_failure_reporting[OF run0] ok0
  have "filter (has_type ''error'') (new_messages w0 (snd ?other)) = []" by blast
  moreover have "send_result env0 = (\<lambda>n. None)" by (simp add: env0_def)
  ultimately show ?thesis using ex c e by blast
qed

section \<open>The envelope of outbound messages\<close>

lemma envelope_messages:
  "envelope (start_message rid txt t)"
  "envelope (chunk_message env rid i c n)"
  "envelope (end_message rid i n t)"
  "envelope (error_message rid msg t)"
  "envelope (pong_message rid t)"
  "envelope (voice_info_message env rid t)"
  "envelope (welcome_message env cid t)"
  by (simp_all add: envelope_def has_type_def msg_get_def start_message_def chunk_message_def
      end_message_def error_message_def pong_message_def voice_info_message_def
      welcome_message_def str_def)

lemma appends_refl: "sent w' = sent w \<Longrightarrow> appends w w'"
  by (simp add: appends_def)

lemma appends_trans: "appends w w1 \<Longrightarrow> appends w1 w2 \<Longrightarrow> appends w w2"
  unfolding appends_def by (metis Un_iff append.assoc set_append)

lemma appends_one: "sent w' = sent w @ [m] \<Longrightarrow> envelope m \<Longrightarrow> appends w w'"
  by (simp add: appends_def)

lemma ws_send_appends: "envelope m \<Longrightarrow> ws_send env m w = (r, w') \<Longrightarrow> appends w w'"
  by (auto simp: ws_send_def appends_def split: option.splits)

lemma send_error_appends: "send_error env msg rid w = (r, w') \<Longrightarrow> appends w w'"
  by (auto simp: send_error_eq appends_def envelope_messages split: option.splits)

lemma send_pong_appends: "send_pong env rid w = (r, w') \<Longrightarrow> appends w w'"
  by (auto simp: send_pong_def loop_time_def ws_send_def appends_def envelope_messages
      split: option.splits)

lemma send_voice_info_appends: "send_voice_info env rid w = (r, w') \<Longrightarrow> appends w w'"
  by (auto simp: send_voice_info_def loop_time_def ws_send_def appends_def envelope_messages
      split: option.splits)

lemma send_welcome_appends: "send_welcome_message env cid w = (r, w') \<Longrightarrow> appends w w'"
  by (auto simp: send_welcome_message_def loop_time_def ws_send_def appends_def envelope_messages
      split: option.splits)

lemma chunk_messages_envelope: "m \<in> set (chunk_messages env rid ys i t) \<Longrightarrow> envelope m"
  by (auto dest: chunk_messages_form simp: envelope_messages)

lemma synthesize_and_stream_appends:
  assumes "synthesize_and_stream env txt rid w = (r, w')"
  shows "appends w w'"
proof -
  from synthesize_and_stream_sent[OF assms] obtain t ys where
    d: "(\<exists>t'. sent w' = sent w @ start_message rid txt t # chunk_messages env rid ys 0 0 @
            [end_message rid (int (length (chunk_messages env rid ys 0 0))) (int (length (concat ys))) t'])
     \<or> (\<exists>k post. sent w' = sent w @ take k (start_message rid txt t # chunk_messages env rid ys 0 0) @ post \<and>
            (post = [] \<or> (\<exists>msg t''. post = [error_message rid msg t''])))"
    by blast
  have pre: "\<And>k m. m \<in> set (take k (start_message rid txt t # chunk_messages env rid ys 0 0)) \<Longrightarrow> envelope m"
    by (auto dest!: in_set_takeD simp: envelope_messages chunk_messages_envelope)
  from d show ?thesis
  proof
    assume "\<exists>t'. sent w' = sent w @ start_message rid txt t # chunk_messages env rid ys 0 0 @
            [end_message rid (int (length (chunk_messages env rid ys 0 0))) (int (length (concat ys))) t']"
    then show ?thesis
      unfolding appends_def by (auto simp: envelope_messages chunk_messages_envelope)
  next
    assume "\<exists>k post. sent w' = sent w @ take k (start_message rid txt t # chunk_messages env rid ys 0 0) @ post \<and>
            (post = [] \<or> (\<exists>msg t''. post = [error_message rid msg t'']))"
    then obtain k post where
      s: "sent w' = sent w @ (take k (start_message rid txt t # chunk_messages env rid ys 0 0) @ post)"
      and p: "post = [] \<or> (\<exists>msg t''. post = [error_message rid msg t''])" by auto
    from p have "\<forall>m\<in>set post. envelope m" by (auto simp: envelope_messages)
    with pre have "\<forall>m\<in>set (take k (start_message rid txt t # chunk_messages env rid ys 0 0) @ post). envelope m"
      by auto
    with s show ?thesis unfolding appends_def by blast
  qed
qed

lemma handle_synthesis_request_appends:
  "handle_synthesis_request env txt rid w = (r, w') \<Longrightarrow> appends w w'"
  by (auto simp: handle_synthesis_request_def appends_refl
      dest: send_error_appends synthesize_and_stream_appends split: if_splits json.splits)

lemma dispatch_message_appends:
  assumes "dispatch_message env message w = (r, w')"
  shows "appends w w'"
proof (cases "json_loads env message")
  case (Inl e)
  with assms show ?thesis by (simp add: dispatch_message_def appends_refl)
next
  case (Inr data)
  show ?thesis
  proof (cases data)
    case (JObj d)
    let ?w1 = "w\<lparr>uuids := Suc (uuids w)\<rparr>"
    have "appends w ?w1" by (simp add: appends_refl)
    moreover from assms Inr JObj have "appends ?w1 w'"
      by (auto simp: dispatch_message_def Let_def
          dest: handle_synthesis_request_appends send_voice_info_appends send_pong_appends
            send_error_appends split: if_splits)
    ultimately show ?thesis by (rule appends_trans)
  qed (use assms Inr in \<open>simp_all add: dispatch_message_def appends_refl\<close>)
qed

lemma handle_message_appends:
  assumes "handle_message env message w = (r, w')"
  shows "appends w w'"
proof -
  obtain r1 w1 where d: "dispatch_message env message w = (r1, w1)"
    by (cases "dispatch_message env message w")
  note a1 = dispatch_message_appends[OF d]
  show ?thesis
  proof (cases r1)
    case (Inr u)
    with d assms a1 show ?thesis by (simp add: handle_message_def)
  next
    case (Inl e)
    with d assms obtain msg rid where "send_error env msg rid w1 = (r, w')"
      by (cases e) (auto simp: handle_message_def)
    then have "appends w1 w'" by (rule send_error_appends)
    with a1 show ?thesis by (rule appends_trans)
  qed
qed

lemma handle_messages_appends:
  "handle_messages env inbound w = (r, w') \<Longrightarrow> appends w w'"
proof (induction inbound arbitrary: w)
  case Nil
  then show ?case by (simp add: appends_refl)
next
  case (Cons message rest)
  obtain r1 w1 where h: "handle_message env message w = (r1, w1)"
    by (cases "handle_message env message w")
  note a1 = handle_message_appends[OF h]
  show ?case
  proof (cases r1)
    case (Inl e)
    with h Cons.prems a1 show ?thesis by simp
  next
    case (Inr u)
    with h Cons.prems have "handle_messages env rest w1 = (r, w')" by simp
    from Cons.IH[OF this] a1 show ?thesis by (auto intro: appends_trans)
  qed
qed

lemma handle_connection_appends: "appends w (handle_connection env inbound w)"
proof -
  let ?cid = "uuid4 env (uuids w)"
  let ?w2 = "w\<lparr>uuids := Suc (uuids w), ticks := Suc (ticks w),
               active_connections := (active_connections w)(?cid \<mapsto> loop_clock env (ticks w))\<rparr>"
  obtain r3 w3 where s: "send_welcome_message env ?cid ?w2 = (r3, w3)"
    by (cases "send_welcome_message env ?cid ?w2")
  have a2: "appends w ?w2" by (simp add: appends_refl)
  note a3 = send_welcome_appends[OF s]
  show ?thesis
  proof (cases r3)
    case (Inl e)
    with s have "handle_connection env inbound w =
        w3\<lparr>active_connections := (active_connections w3)(?cid := None)\<rparr>"
      by (simp add: handle_connection_def Let_def loop_time_def)
    moreover have "appends w3 (w3\<lparr>active_connections := (active_connections w3)(?cid := None)\<rparr>)"
      by (simp add: appends_refl)
    ultimately show ?thesis using a2 a3 by (auto intro: appends_trans)
  next
    case (Inr u)
    obtain r4 w4 where m: "handle_messages env inbound w3 = (r4, w4)"
      by (cases "handle_messages env inbound w3")
    note a4 = handle_messages_appends[OF m]
    from s Inr m have "handle_connection env inbound w =
        w4\<lparr>active_connections := (active_connections w4)(?cid := None)\<rparr>"
      by (simp add: handle_connection_def Let_def loop_time_def)
    moreover have "appends w4 (w4\<lparr>active_connections := (active_connections w4)(?cid := None)\<rparr>)"
      by (simp add: appends_refl)
    ultimately show ?thesis using a2 a3 a4 by (auto intro: appends_trans)
  qed
qed

text \<open>
  Claim C7, amended. Every message \<open>handle_connection\<close> delivers carries a \<open>type\<close>;
  every message other than \<open>welcome\<close> carries a \<open>request_id\<close>, and \<open>welcome\<close> carries a
  \<open>connection_id\<close>; every message other than \<open>audio_chunk\<close> carries a \<open>timestamp\<close>.
\<close>

theorem outbound_envelope:
  assumes "m \<in> set (new_messages w (handle_connection env inbound w))"
  shows "msg_get m ''type'' \<noteq> None \<and>
         (\<not> has_type ''welcome'' m \<longrightarrow> msg_get m ''request_id'' \<noteq> None) \<and>
         (has_type ''welcome'' m \<longrightarrow> msg_get m ''connection_id'' \<noteq> None) \<and>
         (\<not> has_type ''audio_chunk'' m \<longrightarrow> msg_get m ''timestamp'' \<noteq> None)"
proof -
  from handle_connection_appends[of w env inbound] obtain xs where
    "sent (handle_connection env inbound w) = sent w @ xs" and e: "\<forall>m\<in>set xs. envelope m"
    unfolding appends_def by blast
  then have "new_messages w (handle_connection env inbound w) = xs" by (simp add: new_messages_def)
  with assms e have "envelope m" by simp
  then show ?thesis by (auto simp: envelope_def has_type_def split: if_splits)
qed


lemma demo_connection:
  "sent (handle_connection env0 [hi_text] w0) =
     [welcome_message env0 (str ''uuid-0'') 1,
      start_message (JStr (str ''r1'')) (str ''hi'') 2,
      chunk_message env0 (JStr (str ''r1'')) 1 (replicate 4096 1) 4096,
      chunk_message env0 (JStr (str ''r1'')) 2 [1] 4097,
      end_message (JStr (str ''r1'')) 2 4097 3]"
  by (simp add: handle_connection_def send_welcome_message_def handler_eval eval_defs
      env0_handlers demo_loads_eval env0_fields w0_fields str_def)

text \<open>
  Claim C7 as stated fails: the \<open>welcome\<close> message has no \<open>request_id\<close> (lines 44-52 of
  websocket_server.py) and an \<open>audio_chunk\<close> message has no \<open>timestamp\<close> (lines 149-157 of
  tts.py).
\<close>

theorem welcome_has_no_request_id:
  "has_type ''welcome'' (sent (handle_connection env0 [hi_text] w0) ! 0) \<and>
   msg_get (sent (handle_connection env0 [hi_text] w0) ! 0) ''request_id'' = None \<and>
   has_type ''audio_chunk'' (sent (handle_connection env0 [hi_text] w0) ! 2) \<and>
   msg_get (sent (handle_connection env0 [hi_text] w0) ! 2) ''timestamp'' = None"
  by (simp add: demo_connection chunk_message_fields)
    (simp add: has_type_def msg_get_def welcome_message_def str_def)

theorem outbound_envelope_witness:
  "welcome_message env0 (str ''uuid-0'') 1 \<in> set (new_messages w0 (handle_connection env0 [hi_text] w0)) \<and>
   msg_get (welcome_message env0 (str ''uuid-0'') 1) ''timestamp'' \<noteq> None \<and>
   end_message (JStr (str ''r1'')) 2 4097 3 \<in> set (new_messages w0 (handle_connection env0 [hi_text] w0)) \<and>
   msg_get (end_message (JStr (str ''r1'')) 2 4097 3) ''request_id'' \<noteq> None"
proof -
  let ?new = "new_messages w0 (handle_connection env0 [hi_text] w0)"
  have w: "welcome_message env0 (str ''uuid-0'') 1 \<in> set ?new"
    and e: "end_message (JStr (str ''r1'')) 2 4097 3 \<in> set ?new"
    by (simp_all add: new_messages_def demo_connection w0_fields)
  have "\<not> has_type ''audio_chunk'' (welcome_message env0 (str ''uuid-0'') 1)"
    and "\<not> has_type ''welcome'' (end_message (JStr (str ''r1'')) 2 4097 3)"
    by (simp_all add: has_type_def msg_get_def welcome_message_def end_message_def str_def)
  with outbound_envelope[OF w] outbound_envelope[OF e] w e show ?thesis by blast
qed

section \<open>Shutdown\<close>

lemma stop_server_only_stops_engine:
  "stop_server w = w\<lparr>engine_stopped := True\<rparr>"
  by (simp add: stop_server_def)

text \<open>
  Claim C9 and the code. On a platform other than Windows, after \<open>graceful_shutdown\<close>
  (and so \<open>stop_server\<close>) the engine is stopped and \<open>is_running\<close> is cleared, but the
  listening socket is still open and the process lives: a new connection is accepted
  and served.
\<close>

theorem shutdown_keeps_accepting:
  "platform_system env0 = str ''Linux'' \<and>
   \<not> is_running (graceful_shutdown env0 (run svc0)) \<and>
   engine_stopped (server (graceful_shutdown env0 (run svc0))) \<and>
   serving (server (graceful_shutdown env0 (run svc0))) \<and>
   \<not> exited (graceful_shutdown env0 (run svc0)) \<and>
   accept env0 [ping_text] (graceful_shutdown env0 (run svc0)) \<noteq> None"
  by (simp add: graceful_shutdown_def run_def start_server_def stop_server_def accept_def svc0_def
      Let_def env0_def str_def)

end
